theory Spec2Isabelle
  imports Complex_Main "HOL-Library.AList"
begin

section \<open>SDN smart routing: the ML training script (\<open>_train_ml_model.py\<close>)\<close>

text \<open>
  The script is orchestration around pandas, scikit-learn, matplotlib and joblib. The
  embedding keeps every statement of the script's own code (its control flow, its
  guards, its assignments to \<open>self\<close>, its prints and its file writes) and takes the
  library calls as they are: functions of a \<open>library\<close> record whose results the script
  only passes on. A library call that raises returns \<open>Inl\<close>; the script catches
  exceptions in \<open>load_data\<close> only, so everywhere else an \<open>Inl\<close> ends the method.
\<close>

subsection \<open>Data model\<close>

text \<open>
  Table cells, features, labels and accuracies are Python numbers. The script never
  computes with them: it stores, compares and prints them, and an accuracy is the
  ratio of two counts. They are modelled as rationals; the not-a-number value of a
  float is not among them.
\<close>

type_synonym cell = rat
type_synonym series = "cell list"
type_synonym matrix = "cell list list"

text \<open>A \<open>DataFrame\<close>: its columns in order, each with its values.\<close>

type_synonym dataframe = "(string \<times> cell list) list"

datatype exn =
    KeyError "string list"
  | AttributeError string
  | IndexError
  | Raised string

datatype estimator =
    RandomForestClassifier nat nat
  | KNeighborsClassifier nat
  | DecisionTreeClassifier nat nat
  | SVC string nat

text \<open>One entry of the \<open>results\<close> dictionary of \<open>train_models\<close>.\<close>

record 'm result =
  model :: 'm
  accuracy :: rat
  predictions :: series

text \<open>
  What \<open>plt.savefig\<close> writes: the data the script has drawn on the current figure.
\<close>

datatype figure =
    ModelComparison "string list" "rat list" "string list"
  | ConfusionMatrix "nat list list" string
  | FeatureImportance "rat list" "string list"

text \<open>
  A pickled dictionary, as \<open>save_model\<close> hands one to \<open>joblib.dump\<close> and as
  \<open>load_model\<close> subscripts one, with the keys \<open>'model'\<close>, \<open>'scaler'\<close>,
  \<open>'model_name'\<close> and \<open>'accuracy'\<close>. A field is \<open>None\<close> when the dictionary has no
  such key. The value under a key has the type of the attribute that \<open>load_model\<close>
  assigns it to: the model may be \<open>None\<close>, and the scaler is the \<open>StandardScaler\<close>
  object, \<open>None\<close> while it has not been fitted and its fitted parameters afterwards.
\<close>

record ('m, 'p) artifact =
  b_model :: "'m option option"
  b_scaler :: "'p option option"
  b_model_name :: "string option"
  b_accuracy :: "rat option"

text \<open>
  What a pickle file holds: a dictionary, or another object, which carries the
  exception that subscripting it with a string raises (\<open>TypeError\<close> for a list or a
  number).
\<close>

datatype ('m, 'p) pyobj =
    Dict "('m, 'p) artifact"
  | NotDict exn

datatype ('m, 'p) file_content =
    Raw string
  | Pickle "('m, 'p) pyobj"
  | Png figure

text \<open>The world outside the trainer: the file system and what has been printed.\<close>

record ('m, 'p) world =
  files :: "string \<Rightarrow> ('m, 'p) file_content option"
  stdout :: "string list"

text \<open>
  The fields of \<open>SDNMLTrainer\<close>. \<open>models\<close> is a dictionary in insertion order.
  \<open>best_model_name\<close> is not assigned by \<open>__init__\<close>: it is \<open>None\<close> while the
  attribute does not exist, and reading it then raises \<open>AttributeError\<close>.
\<close>

record ('m, 'p) trainer =
  dataset_path :: string
  models :: "(string \<times> 'm result) list"
  scaler :: "'p option"
  best_model :: "'m option"
  best_accuracy :: rat
  best_model_name :: "string option"

text \<open>
  The library calls of the script. \<open>'m\<close> is a fitted classifier, \<open>'p\<close> the fitted
  state of a \<open>StandardScaler\<close>.
\<close>

record ('m, 'p) library =
  read_csv :: "('m, 'p) file_content option \<Rightarrow> exn + dataframe"
  unpickle_error :: "('m, 'p) file_content option \<Rightarrow> exn"
  df_info :: "dataframe \<Rightarrow> string"
  df_head :: "dataframe \<Rightarrow> string"
  str_exn :: "exn \<Rightarrow> string"
  format_f :: "nat \<Rightarrow> rat \<Rightarrow> string"
  str_value :: "cell \<Rightarrow> string"
  train_test_split ::
    "dataframe \<Rightarrow> series \<Rightarrow> rat \<Rightarrow> nat \<Rightarrow> series \<Rightarrow>
       exn + (dataframe \<times> dataframe \<times> series \<times> series)"
  scaler_fit :: "matrix \<Rightarrow> exn + 'p"
  scaler_transform :: "'p \<Rightarrow> matrix \<Rightarrow> exn + matrix"
  fit :: "estimator \<Rightarrow> matrix \<Rightarrow> series \<Rightarrow> exn + 'm"
  predict :: "'m \<Rightarrow> matrix \<Rightarrow> exn + series"
  accuracy_score :: "series \<Rightarrow> series \<Rightarrow> exn + rat"
  classification_report :: "series \<Rightarrow> series \<Rightarrow> exn + string"
  confusion_matrix :: "series \<Rightarrow> series \<Rightarrow> exn + nat list list"
  feature_importances :: "'m \<Rightarrow> exn + rat list"
  argsort :: "rat list \<Rightarrow> nat list"

subsection \<open>Printing\<close>

definition print :: "string \<Rightarrow> ('m, 'p) world \<Rightarrow> ('m, 'p) world" where
  "print s w = w\<lparr>stdout := stdout w @ [s]\<rparr>"

definition nl :: string where
  "nl = [CHR 0x0A]"

text \<open>\<open>"=" * n\<close>\<close>

definition rule_line :: "nat \<Rightarrow> string" where
  "rule_line n = replicate n CHR ''=''"

text \<open>\<open>str(n)\<close> for a length or a count.\<close>

fun str_nat :: "nat \<Rightarrow> string" where
  "str_nat n =
     (if n < 10 then [char_of (48 + n)]
      else str_nat (n div 10) @ [char_of (48 + n mod 10)])"

declare str_nat.simps [simp del]

subsection \<open>Tables\<close>

text \<open>\<open>len(df)\<close>: the number of rows.\<close>

definition len_df :: "dataframe \<Rightarrow> nat" where
  "len_df df = (case df of [] \<Rightarrow> 0 | c # _ \<Rightarrow> length (snd c))"

text \<open>
  \<open>df[cols]\<close> with a list of labels: pandas raises \<open>KeyError\<close> naming the labels that
  are not columns of the table.
\<close>

definition getitem_columns :: "dataframe \<Rightarrow> string list \<Rightarrow> exn + dataframe" where
  "getitem_columns df cols =
     (let missing = filter (\<lambda>c. map_of df c = None) cols
      in if missing \<noteq> [] then Inl (KeyError missing)
         else Inr (map (\<lambda>c. (c, case map_of df c of Some xs \<Rightarrow> xs | None \<Rightarrow> [])) cols))"

text \<open>\<open>df[col]\<close> with one label.\<close>

definition getitem_column :: "dataframe \<Rightarrow> string \<Rightarrow> exn + series" where
  "getitem_column df col =
     (case map_of df col of None \<Rightarrow> Inl (KeyError [col]) | Some xs \<Rightarrow> Inr xs)"

text \<open>The array of rows that scikit-learn makes of a \<open>DataFrame\<close>.\<close>

definition to_numpy :: "dataframe \<Rightarrow> matrix" where
  "to_numpy df = transpose (map snd df)"

text \<open>\<open>xs[i]\<close> on a sequence, with a non-negative index.\<close>

definition getitem :: "'a list \<Rightarrow> nat \<Rightarrow> exn + 'a" where
  "getitem xs i = (if i < length xs then Inr (xs ! i) else Inl IndexError)"

subsection \<open>\<open>SDNMLTrainer.__init__\<close>\<close>

definition init :: "string \<Rightarrow> ('m, 'p) trainer" where
  "init path =
     \<lparr>dataset_path = path, models = [], scaler = None, best_model = None,
      best_accuracy = 0, best_model_name = None\<rparr>"

subsection \<open>\<open>SDNMLTrainer.load_data\<close>\<close>

text \<open>
  The \<open>try\<close> block covers the read and the prints after it; \<open>df.info()\<close> writes its
  summary itself and returns \<open>None\<close>, which the enclosing \<open>print\<close> then prints.
\<close>

definition load_data ::
  "('m, 'p) library \<Rightarrow> ('m, 'p) trainer \<Rightarrow> ('m, 'p) world \<Rightarrow>
   dataframe option \<times> ('m, 'p) trainer \<times> ('m, 'p) world" where
  "load_data L st w =
     (let w1 = print (''Loading dataset from:'' @ '' '' @ dataset_path st) w in
      case read_csv L (files w1 (dataset_path st)) of
        Inl e \<Rightarrow> (None, st, print (''Error loading dataset: '' @ str_exn L e) w1)
      | Inr df \<Rightarrow>
          (let w2 = print (''Dataset loaded: '' @ str_nat (len_df df) @ '' samples'') w1;
               w3 = print (nl @ ''Dataset info:'') w2;
               w4 = print (df_info L df) w3;
               w5 = print ''None'' w4;
               w6 = print (nl @ ''First few rows:'') w5;
               w7 = print (df_head L df) w6
           in (Some df, st, w7)))"

subsection \<open>\<open>SDNMLTrainer.preprocess_data\<close>\<close>

definition feature_cols :: "string list" where
  "feature_cols =
     [''src_addr'', ''dest_addr'', ''src_battery'', ''dest_battery'',
      ''path_distance'', ''path_delay'', ''path_quality'']"

definition target_col :: string where
  "target_col = ''chosen_path''"

text \<open>
  \<open>fit_transform\<close> is \<open>fit\<close> followed by \<open>transform\<close>; \<open>fit\<close> resets the scaler
  before it looks at the data, so a failed fit leaves it unfitted.
\<close>

definition preprocess_data ::
  "('m, 'p) library \<Rightarrow> ('m, 'p) trainer \<Rightarrow> dataframe \<Rightarrow> ('m, 'p) world \<Rightarrow>
   (exn + (matrix \<times> matrix \<times> series \<times> series \<times> dataframe \<times> dataframe)) \<times>
     ('m, 'p) trainer \<times> ('m, 'p) world" where
  "preprocess_data L st df w =
     (let w1 = print (nl @ ''Preprocessing data...'') w in
      case getitem_columns df feature_cols of
        Inl e \<Rightarrow> (Inl e, st, w1)
      | Inr X \<Rightarrow>
     (case getitem_column df target_col of
        Inl e \<Rightarrow> (Inl e, st, w1)
      | Inr y \<Rightarrow>
     (let w2 = print (''Features shape: ('' @ str_nat (len_df X) @ '', '' @
                        str_nat (length X) @ '')'') w1;
          w3 = print (''Target shape: ('' @ str_nat (length y) @ '',)'') w2;
          w4 = print (''Number of unique paths: '' @ str_nat (length (remdups y))) w3
      in
      case train_test_split L X y (1 / 5) 42 y of
        Inl e \<Rightarrow> (Inl e, st, w4)
      | Inr (X_train, X_test, y_train, y_test) \<Rightarrow>
     (case scaler_fit L (to_numpy X_train) of
        Inl e \<Rightarrow> (Inl e, st\<lparr>scaler := None\<rparr>, w4)
      | Inr p \<Rightarrow>
     (let st1 = st\<lparr>scaler := Some p\<rparr> in
      case scaler_transform L p (to_numpy X_train) of
        Inl e \<Rightarrow> (Inl e, st1, w4)
      | Inr X_train_scaled \<Rightarrow>
     (case scaler_transform L p (to_numpy X_test) of
        Inl e \<Rightarrow> (Inl e, st1, w4)
      | Inr X_test_scaled \<Rightarrow>
          (Inr (X_train_scaled, X_test_scaled, y_train, y_test, X_train, X_test),
           st1, w4)))))))"

subsection \<open>\<open>SDNMLTrainer.train_models\<close>\<close>

definition variants :: "(string \<times> estimator) list" where
  "variants =
     [(''Random Forest'', RandomForestClassifier 100 42),
      (''K-Nearest Neighbors'', KNeighborsClassifier 5),
      (''Decision Tree'', DecisionTreeClassifier 10 42),
      (''SVM'', SVC ''rbf'' 42)]"

text \<open>
  The body of \<open>for name, model in models.items()\<close>, over the items still to visit.
  An exception of \<open>fit\<close>, \<open>predict\<close> or \<open>accuracy_score\<close> leaves the loop with the
  trainer as the earlier iterations have left it.
\<close>

fun train_loop ::
  "('m, 'p) library \<Rightarrow> matrix \<Rightarrow> matrix \<Rightarrow> series \<Rightarrow> series \<Rightarrow>
   (string \<times> estimator) list \<Rightarrow> (string \<times> 'm result) list \<Rightarrow>
   ('m, 'p) trainer \<Rightarrow> ('m, 'p) world \<Rightarrow>
   (exn + (string \<times> 'm result) list) \<times> ('m, 'p) trainer \<times> ('m, 'p) world" where
  "train_loop L X_train X_test y_train y_test [] results st w = (Inr results, st, w)"
| "train_loop L X_train X_test y_train y_test ((name, est) # rest) results st w =
     (let w1 = print (nl @ ''--- Training '' @ name @ '' ---'') w in
      case fit L est X_train y_train of
        Inl e \<Rightarrow> (Inl e, st, w1)
      | Inr m \<Rightarrow>
          (case predict L m X_test of
             Inl e \<Rightarrow> (Inl e, st, w1)
           | Inr y_pred \<Rightarrow>
               (case accuracy_score L y_test y_pred of
                  Inl e \<Rightarrow> (Inl e, st, w1)
                | Inr acc \<Rightarrow>
                    (let results1 =
                           AList.update name
                             \<lparr>model = m, accuracy = acc, predictions = y_pred\<rparr> results;
                         w2 = print (''Accuracy: '' @ format_f L 4 acc) w1;
                         st1 =
                           (if acc > best_accuracy st
                            then st\<lparr>best_accuracy := acc, best_model := Some m,
                                    best_model_name := Some name\<rparr>
                            else st)
                     in train_loop L X_train X_test y_train y_test rest results1 st1 w2))))"

definition train_models ::
  "('m, 'p) library \<Rightarrow> ('m, 'p) trainer \<Rightarrow> matrix \<Rightarrow> matrix \<Rightarrow> series \<Rightarrow> series \<Rightarrow>
   ('m, 'p) world \<Rightarrow>
   (exn + (string \<times> 'm result) list) \<times> ('m, 'p) trainer \<times> ('m, 'p) world" where
  "train_models L st X_train X_test y_train y_test w =
     (let w1 = print (nl @ rule_line 50) w;
          w2 = print ''TRAINING ML MODELS'' w1;
          w3 = print (rule_line 50) w2
      in case train_loop L X_train X_test y_train y_test variants [] st w3 of
           (Inl e, st1, w4) \<Rightarrow> (Inl e, st1, w4)
         | (Inr results, st1, w4) \<Rightarrow> (Inr results, st1\<lparr>models := results\<rparr>, w4))"

subsection \<open>\<open>SDNMLTrainer.evaluate_models\<close>\<close>

definition savefig :: "string \<Rightarrow> figure \<Rightarrow> ('m, 'p) world \<Rightarrow> ('m, 'p) world" where
  "savefig filename fig w = w\<lparr>files := (files w)(filename \<mapsto> Png fig)\<rparr>"

definition evaluate_models ::
  "('m, 'p) library \<Rightarrow> ('m, 'p) trainer \<Rightarrow> series \<Rightarrow> ('m, 'p) world \<Rightarrow>
   (exn + unit) \<times> ('m, 'p) trainer \<times> ('m, 'p) world" where
  "evaluate_models L st y_test w =
     (let w1 = print (nl @ rule_line 50) w;
          w2 = print ''MODEL EVALUATION'' w1;
          w3 = print (rule_line 50) w2;
          model_names = map fst (models st);
          accuracies = map (\<lambda>x. accuracy (snd x)) (models st);
          w4 = savefig ''model_comparison.png''
                 (ModelComparison model_names accuracies (map (format_f L 3) accuracies)) w3;
          w5 = print ''Saved: model_comparison.png'' w4
      in
      case best_model_name st of
        None \<Rightarrow> (Inl (AttributeError ''best_model_name''), st, w5)
      | Some name \<Rightarrow>
     (let w6 = print (nl @ ''--- Best Model: '' @ name @ '' ---'') w5;
          w7 = print (''Accuracy: '' @ format_f L 4 (best_accuracy st)) w6
      in
      case map_of (models st) name of
        None \<Rightarrow> (Inl (KeyError [name]), st, w7)
      | Some r \<Rightarrow>
     (let y_pred_best = predictions r;
          w8 = print (nl @ ''Classification Report:'') w7
      in
      case classification_report L y_test y_pred_best of
        Inl e \<Rightarrow> (Inl e, st, w8)
      | Inr report \<Rightarrow>
     (let w9 = print report w8 in
      case confusion_matrix L y_test y_pred_best of
        Inl e \<Rightarrow> (Inl e, st, w9)
      | Inr cm \<Rightarrow>
          (let w10 = savefig ''confusion_matrix.png''
                       (ConfusionMatrix cm (''Confusion Matrix - '' @ name)) w9;
               w11 = print ''Saved: confusion_matrix.png'' w10
           in (Inr (), st, w11))))))"

subsection \<open>\<open>SDNMLTrainer.feature_importance\<close>\<close>

text \<open>The loop \<open>for i, idx in enumerate(indices)\<close> that prints the ranking.\<close>

fun print_ranking ::
  "('m, 'p) library \<Rightarrow> string list \<Rightarrow> rat list \<Rightarrow> nat \<Rightarrow> nat list \<Rightarrow>
   ('m, 'p) world \<Rightarrow> (exn + unit) \<times> ('m, 'p) world" where
  "print_ranking L feature_names importances i [] w = (Inr (), w)"
| "print_ranking L feature_names importances i (idx # rest) w =
     (case getitem feature_names idx of
        Inl e \<Rightarrow> (Inl e, w)
      | Inr fname \<Rightarrow>
          (case getitem importances idx of
             Inl e \<Rightarrow> (Inl e, w)
           | Inr imp \<Rightarrow>
               print_ranking L feature_names importances (i + 1) rest
                 (print (str_nat (i + 1) @ ''. '' @ fname @ '': '' @ format_f L 4 imp) w)))"

definition feature_importance ::
  "('m, 'p) library \<Rightarrow> ('m, 'p) trainer \<Rightarrow> dataframe \<Rightarrow> ('m, 'p) world \<Rightarrow>
   (exn + unit) \<times> ('m, 'p) trainer \<times> ('m, 'p) world" where
  "feature_importance L st X_train_original w =
     (case best_model_name st of
        None \<Rightarrow> (Inl (AttributeError ''best_model_name''), st, w)
      | Some name \<Rightarrow>
          if name \<in> set [''Random Forest'', ''Decision Tree''] then
            (let w1 = print (nl @ rule_line 50) w;
                 w2 = print ''FEATURE IMPORTANCE'' w1;
                 w3 = print (rule_line 50) w2;
                 feature_names = map fst X_train_original
             in
             case best_model st of
               None \<Rightarrow> (Inl (AttributeError ''feature_importances_''), st, w3)
             | Some m \<Rightarrow>
            (case feature_importances L m of
               Inl e \<Rightarrow> (Inl e, st, w3)
             | Inr importances \<Rightarrow>
            (let indices = rev (argsort L importances);
                 w4 = print (nl @ ''Feature ranking:'') w3
             in
             case print_ranking L feature_names importances 0 indices w4 of
               (Inl e, w5) \<Rightarrow> (Inl e, st, w5)
             | (Inr u, w5) \<Rightarrow>
                 (let w6 = savefig ''feature_importance.png''
                             (FeatureImportance (map (\<lambda>i. importances ! i) indices)
                                (map (\<lambda>i. feature_names ! i) indices)) w5;
                      w7 = print ''Saved: feature_importance.png'' w6
                  in (Inr (), st, w7)))))
          else (Inr (), st, w))"

subsection \<open>\<open>SDNMLTrainer.save_model\<close> and \<open>SDNMLTrainer.load_model\<close>\<close>

text \<open>
  \<open>if self.best_model\<close> tests the object's truth value: \<open>None\<close> is false and a fitted
  estimator is true (the forest has a length, its 100 trees; the other three define
  neither a length nor a truth value). \<open>joblib.dump\<close> stores the dictionary at the path.
\<close>

definition save_model ::
  "('m, 'p) library \<Rightarrow> ('m, 'p) trainer \<Rightarrow> string \<Rightarrow> ('m, 'p) world \<Rightarrow>
   (exn + unit) \<times> ('m, 'p) trainer \<times> ('m, 'p) world" where
  "save_model L st filename w =
     (case best_model st of
        None \<Rightarrow> (Inr (), st, w)
      | Some m \<Rightarrow>
          (case best_model_name st of
             None \<Rightarrow> (Inl (AttributeError ''best_model_name''), st, w)
           | Some name \<Rightarrow>
               (let w1 = w\<lparr>files := (files w)(filename \<mapsto>
                              Pickle (Dict \<lparr>b_model = Some (Some m),
                                             b_scaler = Some (scaler st),
                                             b_model_name = Some name,
                                             b_accuracy = Some (best_accuracy st)\<rparr>))\<rparr>;
                    w2 = print (nl @ ''Model saved: '' @ filename) w1
                in (Inr (), st, w2))))"

text \<open>
  \<open>joblib.load\<close> returns the object stored at the path. When there is no file, or the
  file is not a pickle, it raises; which exception depends on the file and is the
  library's to say. The exception is not caught.
\<close>

definition joblib_load ::
  "('m, 'p) library \<Rightarrow> ('m, 'p) file_content option \<Rightarrow> exn + ('m, 'p) pyobj" where
  "joblib_load L f =
     (case f of
        Some (Pickle obj) \<Rightarrow> Inr obj
      | _ \<Rightarrow> Inl (unpickle_error L f))"

text \<open>
  \<open>data[key]\<close>: \<open>KeyError\<close> when the dictionary has no such key.
\<close>

definition getitem_dict ::
  "('m, 'p) pyobj \<Rightarrow> string \<Rightarrow> (('m, 'p) artifact \<Rightarrow> 'a option) \<Rightarrow> exn + 'a" where
  "getitem_dict data key field =
     (case data of
        NotDict e \<Rightarrow> Inl e
      | Dict d \<Rightarrow> (case field d of None \<Rightarrow> Inl (KeyError [key]) | Some v \<Rightarrow> Inr v))"

text \<open>
  The four assignments happen one after the other: when a key is missing, the
  attributes assigned before it keep their new values.
\<close>

definition load_model ::
  "('m, 'p) library \<Rightarrow> ('m, 'p) trainer \<Rightarrow> string \<Rightarrow> ('m, 'p) world \<Rightarrow>
   (exn + unit) \<times> ('m, 'p) trainer \<times> ('m, 'p) world" where
  "load_model L st filename w =
     (case joblib_load L (files w filename) of
        Inl e \<Rightarrow> (Inl e, st, w)
      | Inr data \<Rightarrow>
     (case getitem_dict data ''model'' b_model of
        Inl e \<Rightarrow> (Inl e, st, w)
      | Inr v1 \<Rightarrow>
     (let st1 = st\<lparr>best_model := v1\<rparr> in
      case getitem_dict data ''scaler'' b_scaler of
        Inl e \<Rightarrow> (Inl e, st1, w)
      | Inr v2 \<Rightarrow>
     (let st2 = st1\<lparr>scaler := v2\<rparr> in
      case getitem_dict data ''model_name'' b_model_name of
        Inl e \<Rightarrow> (Inl e, st2, w)
      | Inr v3 \<Rightarrow>
     (let st3 = st2\<lparr>best_model_name := Some v3\<rparr> in
      case getitem_dict data ''accuracy'' b_accuracy of
        Inl e \<Rightarrow> (Inl e, st3, w)
      | Inr v4 \<Rightarrow>
          (let st4 = st3\<lparr>best_accuracy := v4\<rparr>;
               w1 = print (''Model loaded: '' @ v3 @ '' (Accuracy: '' @
                             format_f L 4 v4 @ '')'') w
           in (Inr (), st4, w1)))))))"

subsection \<open>\<open>SDNMLTrainer.predict_path\<close>\<close>

text \<open>
  \<open>transform\<close> on a scaler that has not been fitted raises \<open>NotFittedError\<close>.
\<close>

definition predict_path ::
  "('m, 'p) library \<Rightarrow> ('m, 'p) trainer \<Rightarrow>
   cell \<Rightarrow> cell \<Rightarrow> cell \<Rightarrow> cell \<Rightarrow> cell \<Rightarrow> cell \<Rightarrow> cell \<Rightarrow> ('m, 'p) world \<Rightarrow>
   (exn + cell option) \<times> ('m, 'p) trainer \<times> ('m, 'p) world" where
  "predict_path L st src_addr dest_addr src_battery dest_battery
       path_distance path_delay path_quality w =
     (case best_model st of
        None \<Rightarrow> (Inr None, st, print ''Error: No trained model available'' w)
      | Some m \<Rightarrow>
          (let X_new = [[src_addr, dest_addr, src_battery, dest_battery,
                         path_distance, path_delay, path_quality]]
           in
           case scaler st of
             None \<Rightarrow> (Inl (Raised ''NotFittedError''), st, w)
           | Some p \<Rightarrow>
          (case scaler_transform L p X_new of
             Inl e \<Rightarrow> (Inl e, st, w)
           | Inr X_new_scaled \<Rightarrow>
          (case predict L m X_new_scaled of
             Inl e \<Rightarrow> (Inl e, st, w)
           | Inr ys \<Rightarrow>
               (case getitem ys 0 of
                  Inl e \<Rightarrow> (Inl e, st, w)
                | Inr predicted_path \<Rightarrow> (Inr (Some predicted_path), st, w))))))"

subsection \<open>\<open>main\<close>\<close>

text \<open>
  The trainer is local to \<open>main\<close>; an exception of a step after the guard is not
  caught and ends the run.
\<close>

definition main :: "('m, 'p) library \<Rightarrow> ('m, 'p) world \<Rightarrow> (exn + unit) \<times> ('m, 'p) world" where
  "main L w =
     (let w1 = print (rule_line 60) w;
          w2 = print ''SDN SMART ROUTING - ML TRAINING'' w1;
          w3 = print (rule_line 60) w2;
          trainer = init ''sdn_dataset.csv''
      in
      case load_data L trainer w3 of
        (None, t1, w4) \<Rightarrow>
          (Inr (),
           print ''Please run the simulation longer to collect more samples.''
             (print (nl @ ''Insufficient data for training!'') w4))
      | (Some df, t1, w4) \<Rightarrow>
          if len_df df < 10 then
            (Inr (),
             print ''Please run the simulation longer to collect more samples.''
               (print (nl @ ''Insufficient data for training!'') w4))
          else
            (case preprocess_data L t1 df w4 of
               (Inl e, s1, v1) \<Rightarrow> (Inl e, v1)
             | (Inr (X_train, X_test, y_train, y_test, X_train_orig, X_test_orig), s1, v1) \<Rightarrow>
            (case train_models L s1 X_train X_test y_train y_test v1 of
               (Inl e, s2, v2) \<Rightarrow> (Inl e, v2)
             | (Inr results, s2, v2) \<Rightarrow>
            (case evaluate_models L s2 y_test v2 of
               (Inl e, s3, v3) \<Rightarrow> (Inl e, v3)
             | (Inr u3, s3, v3) \<Rightarrow>
            (case feature_importance L s3 X_train_orig v3 of
               (Inl e, s4, v4) \<Rightarrow> (Inl e, v4)
             | (Inr u4, s4, v4) \<Rightarrow>
            (case save_model L s4 ''sdn_best_model.pkl'' v4 of
               (Inl e, s5, v5) \<Rightarrow> (Inl e, v5)
             | (Inr u5, s5, v5) \<Rightarrow>
            (let v6 = print (nl @ rule_line 60) v5;
                 v7 = print ''TRAINING COMPLETED!'' v6;
                 v8 = print (rule_line 60) v7
             in
             case best_model_name s5 of
               None \<Rightarrow> (Inl (AttributeError ''best_model_name''), v8)
             | Some name \<Rightarrow>
            (let v9 = print (''Best Model: '' @ name) v8;
                 v10 = print (''Accuracy: '' @ format_f L 4 (best_accuracy s5)) v9;
                 v11 = print (nl @ ''Generated files:'') v10;
                 v12 = print ''  - sdn_best_model.pkl'' v11;
                 v13 = print ''  - model_comparison.png'' v12;
                 v14 = print ''  - confusion_matrix.png'' v13;
                 v15 = print ''  - feature_importance.png'' v14;
                 v16 = print (nl @ rule_line 60) v15;
                 v17 = print ''EXAMPLE PREDICTION'' v16;
                 v18 = print (rule_line 60) v17
             in
             case predict_path L s5 1 3 85 90 50 (5 / 100) 75 v18 of
               (Inl e, s6, v19) \<Rightarrow> (Inl e, v19)
             | (Inr predicted_path, s6, v19) \<Rightarrow>
                 (Inr (),
                  print (''Predicted optimal path: '' @
                           (case predicted_path of None \<Rightarrow> ''None'' | Some v \<Rightarrow> str_value L v))
                    v19)))))))))"

subsection \<open>A small library instance\<close>

text \<open>
  An executable instance of the library, for running the script on concrete inputs.
  A fitted model is its estimator with the labels it was trained on, and it predicts
  one of those labels for every row: the forest the first, the nearest-neighbours
  classifier the last, the tree the middle one and the support-vector classifier the
  second. As in scikit-learn, fitting needs as many labels as rows, the
  support-vector classifier needs two classes, predicting needs a row, and the
  nearest-neighbours classifier needs at least as many training rows as neighbours.
  The split takes the first fifth of the rows as the test partition, the scaler
  centres each column on its mean, and the accuracy is the fraction of matching
  labels.
\<close>

type_synonym demo_model = "estimator \<times> series"

definition demo_fit :: "estimator \<Rightarrow> matrix \<Rightarrow> series \<Rightarrow> exn + demo_model" where
  "demo_fit est X y =
     (if X = [] \<or> length X \<noteq> length y then Inl (Raised ''ValueError'')
      else case est of
             SVC k s \<Rightarrow>
               if length (remdups y) < 2 then Inl (Raised ''ValueError'') else Inr (est, y)
           | _ \<Rightarrow> Inr (est, y))"

definition demo_label :: "demo_model \<Rightarrow> cell" where
  "demo_label m =
     (case fst m of
        RandomForestClassifier n s \<Rightarrow> hd (snd m)
      | KNeighborsClassifier k \<Rightarrow> last (snd m)
      | DecisionTreeClassifier d s \<Rightarrow> snd m ! (length (snd m) div 2)
      | SVC k s \<Rightarrow> snd m ! 1)"

definition demo_predict :: "demo_model \<Rightarrow> matrix \<Rightarrow> exn + series" where
  "demo_predict m X =
     (if X = [] then Inl (Raised ''ValueError'')
      else case fst m of
             KNeighborsClassifier k \<Rightarrow>
               if length (snd m) < k then Inl (Raised ''ValueError'')
               else Inr (map (\<lambda>row. demo_label m) X)
           | _ \<Rightarrow> Inr (map (\<lambda>row. demo_label m) X))"

definition demo_table :: "nat \<Rightarrow> dataframe" where
  "demo_table n =
     map (\<lambda>c. (c, map of_nat [0..<n])) feature_cols @
     [(target_col, map (\<lambda>i. of_nat (i mod 3 + 1)) [0..<n])]"

definition demo_library :: "(demo_model, rat list) library" where
  "demo_library =
     \<lparr>read_csv = (\<lambda>f. case f of
                     None \<Rightarrow> Inl (Raised ''FileNotFoundError'')
                   | Some (Raw s) \<Rightarrow> Inr (demo_table (length s))
                   | Some _ \<Rightarrow> Inl (Raised ''ParserError'')),
      unpickle_error = (\<lambda>f. case f of
                     None \<Rightarrow> Raised ''FileNotFoundError''
                   | Some _ \<Rightarrow> Raised ''not a pickle''),
      df_info = (\<lambda>df. ''<info>''),
      df_head = (\<lambda>df. ''<head>''),
      str_exn = (\<lambda>e. ''<exception>''),
      format_f = (\<lambda>n x. ''<float>''),
      str_value = (\<lambda>v. ''<value>''),
      train_test_split = (\<lambda>X y test_size seed strat.
         let k = length y div 5
         in Inr (map (\<lambda>c. (fst c, drop k (snd c))) X, map (\<lambda>c. (fst c, take k (snd c))) X,
                 drop k y, take k y)),
      scaler_fit = (\<lambda>M. if M = [] then Inl (Raised ''ValueError'')
                          else Inr (map (\<lambda>col. sum_list col / of_nat (length col)) (transpose M))),
      scaler_transform = (\<lambda>p M. Inr (map (\<lambda>row. map (\<lambda>(x, mean). x - mean) (zip row p)) M)),
      fit = demo_fit,
      predict = demo_predict,
      accuracy_score = (\<lambda>y_true y_pred.
         if length y_true \<noteq> length y_pred then Inl (Raised ''ValueError'')
         else Inr (of_nat (length (filter (\<lambda>(a, b). a = b) (zip y_true y_pred))) /
                   of_nat (length y_true))),
      classification_report = (\<lambda>y_true y_pred. Inr ''<report>''),
      confusion_matrix = (\<lambda>y_true y_pred. Inr []),
      feature_importances = (\<lambda>m. case fst m of
                     RandomForestClassifier n s \<Rightarrow> Inr [1/28, 2/28, 3/28, 4/28, 5/28, 6/28, 7/28]
                   | DecisionTreeClassifier d s \<Rightarrow> Inr [7/28, 6/28, 5/28, 4/28, 3/28, 2/28, 1/28]
                   | _ \<Rightarrow> Inl (AttributeError ''feature_importances_'')),
      argsort = (\<lambda>xs. sort_key (\<lambda>i. xs ! i) [0..<length xs])\<rparr>"

definition empty_world :: "('m, 'p) world" where
  "empty_world = \<lparr>files = (\<lambda>path. None), stdout = []\<rparr>"

text \<open>
  A train partition of six flows in three classes, and a test partition of two flows.
\<close>

definition demo_X_train :: matrix where
  "demo_X_train =
     [[1, 3, 85, 90, 50, 1 / 20, 75], [1, 2, 80, 70, 40, 1 / 10, 60],
      [2, 3, 60, 90, 30, 1 / 50, 90], [2, 1, 55, 40, 70, 1 / 5, 50],
      [3, 1, 95, 35, 20, 1 / 25, 85], [3, 2, 45, 65, 60, 3 / 20, 55]]"

definition demo_y_train :: series where
  "demo_y_train = [1, 3, 3, 2, 2, 2]"

definition demo_X_test :: matrix where
  "demo_X_test = [[1, 3, 70, 80, 45, 1 / 10, 70], [2, 3, 50, 60, 55, 1 / 20, 65]]"

text \<open>
  Two trainers as a training run or \<open>load_model\<close> leaves them: one whose best model is
  the nearest-neighbours classifier, one whose best model is the decision tree.
\<close>

definition demo_trainer :: "(demo_model, rat list) trainer" where
  "demo_trainer =
     (init ''sdn_dataset.csv'')
       \<lparr>scaler := Some [1, 2, 3, 4, 5, 6, 7],
        best_model := Some (KNeighborsClassifier 5, demo_y_train),
        best_accuracy := 3 / 4,
        best_model_name := Some ''K-Nearest Neighbors''\<rparr>"

definition demo_tree_trainer :: "(demo_model, rat list) trainer" where
  "demo_tree_trainer =
     (init ''sdn_dataset.csv'')
       \<lparr>scaler := Some [1, 2, 3, 4, 5, 6, 7],
        best_model := Some (DecisionTreeClassifier 10 42, demo_y_train),
        best_accuracy := 1,
        best_model_name := Some ''Decision Tree''\<rparr>"

section \<open>Properties\<close>

subsection \<open>The running best of the training loop\<close>

text \<open>
  A key that is not in a dictionary yet is inserted at the end, so \<open>results\<close> keeps
  the iteration order of the variants.
\<close>

lemma update_fresh:
  "k \<notin> fst ` set al \<Longrightarrow> AList.update k v al = al @ [(k, v)]"
  by (induction al) auto

text \<open>
  The invariant of the loop: either no visited variant scored above the running best
  at entry and the trainer is untouched, or the trainer holds the first of the visited
  variants whose accuracy is maximal.
\<close>

lemma train_loop_best:
  assumes "train_loop L X_train X_test y_train y_test vs rs st w = (Inr rs', st', w')"
    and "distinct (map fst vs)"
    and "set (map fst vs) \<inter> fst ` set rs = {}"
  shows "\<exists>new. rs' = rs @ new \<and> map fst new = map fst vs \<and>
     ((\<forall>x\<in>set new. accuracy (snd x) \<le> best_accuracy st) \<and> st' = st
      \<or> (\<exists>pre name r post. new = pre @ (name, r) # post \<and>
            best_accuracy st < accuracy r \<and>
            (\<forall>x\<in>set pre. accuracy (snd x) < accuracy r) \<and>
            (\<forall>x\<in>set post. accuracy (snd x) \<le> accuracy r) \<and>
            st' = st\<lparr>best_accuracy := accuracy r, best_model := Some (model r),
                       best_model_name := Some name\<rparr>))"
  using assms
proof (induction vs arbitrary: rs st w)
  case Nil
  then show ?case by simp
next
  case (Cons v vs)
  obtain name est where v: "v = (name, est)" by (cases v)
  from Cons.prems(1) obtain m where m: "fit L est X_train y_train = Inr m"
    by (auto simp: v Let_def split: sum.splits)
  from Cons.prems(1) m obtain y_pred where yp: "predict L m X_test = Inr y_pred"
    by (auto simp: v Let_def split: sum.splits)
  from Cons.prems(1) m yp obtain acc where acc: "accuracy_score L y_test y_pred = Inr acc"
    by (auto simp: v Let_def split: sum.splits)
  define r0 where "r0 = \<lparr>model = m, accuracy = acc, predictions = y_pred\<rparr>"
  define st1 where "st1 = (if acc > best_accuracy st
                            then st\<lparr>best_accuracy := acc, best_model := Some m,
                                    best_model_name := Some name\<rparr>
                            else st)"
  define w2 where "w2 = print (''Accuracy: '' @ format_f L 4 acc) (print (nl @ ''--- Training '' @ name @ '' ---'') w)"
  have fresh: "name \<notin> fst ` set rs" using Cons.prems(3) by (auto simp: v)
  have upd: "AList.update name r0 rs = rs @ [(name, r0)]"
    using fresh by (rule update_fresh)
  have run: "train_loop L X_train X_test y_train y_test vs (rs @ [(name, r0)]) st1 w2 = (Inr rs', st', w')"
    using Cons.prems(1) m yp acc upd
    by (simp add: v Let_def r0_def st1_def w2_def)
  have d: "distinct (map fst vs)" using Cons.prems(2) by simp
  have disj: "set (map fst vs) \<inter> fst ` set (rs @ [(name, r0)]) = {}"
    using Cons.prems(2,3) by (auto simp: v)
  from Cons.IH[OF run d disj] obtain new where
    new: "rs' = (rs @ [(name, r0)]) @ new" "map fst new = map fst vs"
    and alt: "(\<forall>x\<in>set new. accuracy (snd x) \<le> best_accuracy st1) \<and> st' = st1
      \<or> (\<exists>pre name r post. new = pre @ (name, r) # post \<and>
            best_accuracy st1 < accuracy r \<and>
            (\<forall>x\<in>set pre. accuracy (snd x) < accuracy r) \<and>
            (\<forall>x\<in>set post. accuracy (snd x) \<le> accuracy r) \<and>
            st' = st1\<lparr>best_accuracy := accuracy r, best_model := Some (model r),
                       best_model_name := Some name\<rparr>)"
    by blast
  let ?new = "(name, r0) # new"
  have a0: "accuracy r0 = acc" "model r0 = m" by (simp_all add: r0_def)
  have shape: "rs' = rs @ ?new \<and> map fst ?new = map fst (v # vs)"
    using new by (simp add: v)
  show ?case
  proof (cases "acc > best_accuracy st")
    case True
    then have st1: "st1 = st\<lparr>best_accuracy := acc, best_model := Some m,
                                    best_model_name := Some name\<rparr>"
      by (simp add: st1_def)
    from alt show ?thesis
    proof
      assume A: "(\<forall>x\<in>set new. accuracy (snd x) \<le> best_accuracy st1) \<and> st' = st1"
      have "?new = [] @ (name, r0) # new \<and> best_accuracy st < accuracy r0 \<and>
            (\<forall>x\<in>set []. accuracy (snd x) < accuracy r0) \<and>
            (\<forall>x\<in>set new. accuracy (snd x) \<le> accuracy r0) \<and>
            st' = st\<lparr>best_accuracy := accuracy r0, best_model := Some (model r0),
                       best_model_name := Some name\<rparr>"
        using A True st1 a0 by simp
      then show ?thesis using shape by blast
    next
      assume "\<exists>pre name r post. new = pre @ (name, r) # post \<and>
            best_accuracy st1 < accuracy r \<and>
            (\<forall>x\<in>set pre. accuracy (snd x) < accuracy r) \<and>
            (\<forall>x\<in>set post. accuracy (snd x) \<le> accuracy r) \<and>
            st' = st1\<lparr>best_accuracy := accuracy r, best_model := Some (model r),
                       best_model_name := Some name\<rparr>"
      then obtain pre n r post where B: "new = pre @ (n, r) # post"
            "best_accuracy st1 < accuracy r"
            "\<forall>x\<in>set pre. accuracy (snd x) < accuracy r"
            "\<forall>x\<in>set post. accuracy (snd x) \<le> accuracy r"
            "st' = st1\<lparr>best_accuracy := accuracy r, best_model := Some (model r),
                       best_model_name := Some n\<rparr>"
        by blast
      have "?new = ((name, r0) # pre) @ (n, r) # post \<and> best_accuracy st < accuracy r \<and>
            (\<forall>x\<in>set ((name, r0) # pre). accuracy (snd x) < accuracy r) \<and>
            (\<forall>x\<in>set post. accuracy (snd x) \<le> accuracy r) \<and>
            st' = st\<lparr>best_accuracy := accuracy r, best_model := Some (model r),
                       best_model_name := Some n\<rparr>"
        using B True st1 a0 by simp
      then show ?thesis using shape by blast
    qed
  next
    case False
    then have st1: "st1 = st" by (simp add: st1_def)
    from alt show ?thesis
    proof
      assume A: "(\<forall>x\<in>set new. accuracy (snd x) \<le> best_accuracy st1) \<and> st' = st1"
      then have "(\<forall>x\<in>set ?new. accuracy (snd x) \<le> best_accuracy st) \<and> st' = st"
        using False st1 a0 by simp
      then show ?thesis using shape by blast
    next
      assume "\<exists>pre name r post. new = pre @ (name, r) # post \<and>
            best_accuracy st1 < accuracy r \<and>
            (\<forall>x\<in>set pre. accuracy (snd x) < accuracy r) \<and>
            (\<forall>x\<in>set post. accuracy (snd x) \<le> accuracy r) \<and>
            st' = st1\<lparr>best_accuracy := accuracy r, best_model := Some (model r),
                       best_model_name := Some name\<rparr>"
      then obtain pre n r post where B: "new = pre @ (n, r) # post"
            "best_accuracy st1 < accuracy r"
            "\<forall>x\<in>set pre. accuracy (snd x) < accuracy r"
            "\<forall>x\<in>set post. accuracy (snd x) \<le> accuracy r"
            "st' = st1\<lparr>best_accuracy := accuracy r, best_model := Some (model r),
                       best_model_name := Some n\<rparr>"
        by blast
      have "?new = ((name, r0) # pre) @ (n, r) # post \<and> best_accuracy st < accuracy r \<and>
            (\<forall>x\<in>set ((name, r0) # pre). accuracy (snd x) < accuracy r) \<and>
            (\<forall>x\<in>set post. accuracy (snd x) \<le> accuracy r) \<and>
            st' = st\<lparr>best_accuracy := accuracy r, best_model := Some (model r),
                       best_model_name := Some n\<rparr>"
        using B False st1 a0 by auto
      then show ?thesis using shape by blast
    qed
  qed
qed

lemma distinct_variants: "distinct (map fst variants)"
  by (simp add: variants_def)

lemma train_models_run:
  assumes "train_models L st X_train X_test y_train y_test w = (Inr results, st', w')"
  shows "map fst results = map fst variants \<and>
     ((\<forall>x\<in>set results. accuracy (snd x) \<le> best_accuracy st) \<and>
        st' = st\<lparr>models := results\<rparr>
      \<or> (\<exists>pre name r post. results = pre @ (name, r) # post \<and>
            best_accuracy st < accuracy r \<and>
            (\<forall>x\<in>set pre. accuracy (snd x) < accuracy r) \<and>
            (\<forall>x\<in>set post. accuracy (snd x) \<le> accuracy r) \<and>
            st' = st\<lparr>best_accuracy := accuracy r, best_model := Some (model r),
                       best_model_name := Some name, models := results\<rparr>))"
proof -
  let ?w3 = "print (rule_line 50) (print ''TRAINING ML MODELS'' (print (nl @ rule_line 50) w))"
  obtain r1 s1 w4 where loop:
    "train_loop L X_train X_test y_train y_test variants [] st ?w3 = (r1, s1, w4)"
    by (metis prod_cases3)
  from assms loop have r1: "r1 = Inr results" and st': "st' = s1\<lparr>models := results\<rparr>"
    by (auto simp: train_models_def Let_def split: sum.splits)
  have "set (map fst variants) \<inter> fst ` set ([] :: (string \<times> 'a result) list) = {}"
    by simp
  from train_loop_best[OF loop[unfolded r1] distinct_variants this]
  show ?thesis unfolding st' by auto
qed

subsection \<open>Evaluating concrete runs\<close>

lemmas run_defs = train_models_def variants_def demo_library_def demo_fit_def demo_predict_def
  demo_label_def demo_X_train_def demo_y_train_def demo_X_test_def init_def print_def
  empty_world_def Let_def nl_def rule_line_def

lemma len_df_demo_table: "len_df (demo_table n) = n"
  by (simp add: len_df_def demo_table_def feature_cols_def)

lemma files_print: "files (print s w) = files w"
  by (simp add: print_def)

lemma stdout_print: "stdout (print s w) = stdout w @ [s]"
  by (simp add: print_def)

lemma load_data_print:
  "fst (load_data L st (print s w)) = fst (load_data L st w)"
  by (simp add: load_data_def Let_def files_print split: sum.splits)

lemma load_data_world:
  "files (snd (snd (load_data L st w))) = files w \<and>
   (\<exists>out. stdout (snd (snd (load_data L st w))) = stdout w @ out)"
  by (simp add: load_data_def Let_def files_print stdout_print split: sum.splits)

section \<open>The claims\<close>

subsection \<open>C1: the best model is the first variant of maximal accuracy\<close>

text \<open>
  C1, as stated: for every training run, the best model selected by \<open>train_models\<close> is
  the variant with the maximum test accuracy among all trained variants, the first-seen
  one on ties. This fails on a new trainer when every variant scores 0. In the run
  below the test labels do not occur among the training labels, so no classifier can
  predict them: all four variants are trained and score 0, the variant of maximal
  accuracy, first in iteration order, is the random forest, and no best model is
  selected at all.
\<close>

theorem train_models_all_zero_counterexample:
  "map_sum id (map (\<lambda>x. (fst x, accuracy (snd x))))
     (fst (train_models demo_library (init ''sdn_dataset.csv'')
             demo_X_train demo_X_test demo_y_train [9, 9] empty_world)) =
     Inr [(''Random Forest'', 0), (''K-Nearest Neighbors'', 0), (''Decision Tree'', 0),
          (''SVM'', 0)] \<and>
   best_model (fst (snd (train_models demo_library (init ''sdn_dataset.csv'')
      demo_X_train demo_X_test demo_y_train [9, 9] empty_world))) = None"
  by (simp add: run_defs)

text \<open>
  C1, amended: for every training run on a new trainer in which at least one trained
  variant has a test accuracy greater than 0, the best model selected by
  \<open>train_models\<close> is the variant with the maximum test accuracy among all trained
  variants, and on exact ties the first-seen variant in iteration order wins: every
  variant before it is strictly worse and every variant after it is at most as good.
\<close>

theorem train_models_selects_first_maximum:
  assumes "train_models L (init path) X_train X_test y_train y_test w = (Inr results, st', w')"
    and "\<exists>x\<in>set results. 0 < accuracy (snd x)"
  shows "map fst results = map fst variants \<and>
     (\<exists>pre name r post. results = pre @ (name, r) # post \<and>
        (\<forall>x\<in>set pre. accuracy (snd x) < accuracy r) \<and>
        (\<forall>x\<in>set post. accuracy (snd x) \<le> accuracy r) \<and>
        best_model st' = Some (model r) \<and> best_model_name st' = Some name \<and>
        best_accuracy st' = accuracy r)"
proof -
  note run = train_models_run[OF assms(1)]
  have "\<not> (\<forall>x\<in>set results. accuracy (snd x) \<le> best_accuracy (init path :: ('a, 'b) trainer))"
    using assms(2) by (auto simp: init_def not_le)
  with run obtain pre name r post where
    split: "results = pre @ (name, r) # post"
      "\<forall>x\<in>set pre. accuracy (snd x) < accuracy r"
      "\<forall>x\<in>set post. accuracy (snd x) \<le> accuracy r"
    and st': "st' = (init path)\<lparr>best_accuracy := accuracy r, best_model := Some (model r),
                       best_model_name := Some name, models := results\<rparr>"
    by blast
  from st' have "best_model st' = Some (model r) \<and> best_model_name st' = Some name \<and>
        best_accuracy st' = accuracy r"
    by simp
  with split run show ?thesis by blast
qed

theorem train_models_selects_first_maximum_witness:
  "map_sum id (map (\<lambda>x. (fst x, accuracy (snd x))))
     (fst (train_models demo_library (init ''sdn_dataset.csv'')
             demo_X_train demo_X_test demo_y_train [2, 2] empty_world)) =
     Inr [(''Random Forest'', 0), (''K-Nearest Neighbors'', 1), (''Decision Tree'', 1),
          (''SVM'', 0)] \<and>
   best_model_name (fst (snd (train_models demo_library (init ''sdn_dataset.csv'')
      demo_X_train demo_X_test demo_y_train [2, 2] empty_world))) =
     Some ''K-Nearest Neighbors'' \<and>
   best_accuracy (fst (snd (train_models demo_library (init ''sdn_dataset.csv'')
      demo_X_train demo_X_test demo_y_train [2, 2] empty_world))) = 1"
proof -
  let ?run = "train_models demo_library (init ''sdn_dataset.csv'')
                demo_X_train demo_X_test demo_y_train [2, 2] empty_world"
  let ?R = "[(''Random Forest'',
           \<lparr>model = (RandomForestClassifier 100 42, demo_y_train), accuracy = 0,
              predictions = [1, 1]\<rparr>),
          (''K-Nearest Neighbors'',
           \<lparr>model = (KNeighborsClassifier 5, demo_y_train), accuracy = 1,
              predictions = [2, 2]\<rparr>),
          (''Decision Tree'',
           \<lparr>model = (DecisionTreeClassifier 10 42, demo_y_train), accuracy = 1,
              predictions = [2, 2]\<rparr>),
          (''SVM'',
           \<lparr>model = (SVC ''rbf'' 42, demo_y_train), accuracy = 0, predictions = [3, 3]\<rparr>)]"
  have r: "fst ?run = Inr ?R"
    by (simp add: run_defs)
  then have run: "?run = (Inr ?R, fst (snd ?run), snd (snd ?run))"
    by (metis prod.collapse)
  have pos: "\<exists>x\<in>set ?R. 0 < accuracy (snd x)"
    by simp
  from train_models_selects_first_maximum[OF run pos] show ?thesis
    using r by (simp add: run_defs)
qed

subsection \<open>C9: all accuracies zero\<close>

text \<open>
  C9: the running best accuracy starts at 0 and only a strictly greater accuracy
  replaces the best, so when every trained variant scores a test accuracy of exactly 0
  on a new trainer, \<open>train_models\<close> finishes with the best model still \<open>None\<close> and
  the best-model name never set, while the registry holds the results of all four
  variants.
\<close>

theorem train_models_all_zero_keeps_no_best:
  assumes "train_models L (init path) X_train X_test y_train y_test w = (Inr results, st', w')"
    and "\<forall>x\<in>set results. accuracy (snd x) = 0"
  shows "best_model st' = None \<and> best_model_name st' = None \<and> best_accuracy st' = 0 \<and>
     models st' = results \<and>
     map fst results = [''Random Forest'', ''K-Nearest Neighbors'', ''Decision Tree'', ''SVM'']"
proof -
  note run = train_models_run[OF assms(1)]
  have "\<not> (\<exists>pre name r post. results = pre @ (name, r) # post \<and>
            best_accuracy (init path :: ('a, 'b) trainer) < accuracy r)"
    using assms(2) by (auto simp: init_def)
  with run have "st' = (init path)\<lparr>models := results\<rparr>" by blast
  moreover have "map fst results = [''Random Forest'', ''K-Nearest Neighbors'', ''Decision Tree'', ''SVM'']"
    using run by (simp add: variants_def)
  ultimately show ?thesis by (simp add: init_def)
qed

theorem train_models_all_zero_keeps_no_best_witness:
  "map_sum id (map (\<lambda>x. (fst x, accuracy (snd x))))
     (fst (train_models demo_library (init ''sdn_dataset.csv'')
             demo_X_train demo_X_test demo_y_train [4, 5] empty_world)) =
     Inr [(''Random Forest'', 0), (''K-Nearest Neighbors'', 0), (''Decision Tree'', 0),
          (''SVM'', 0)] \<and>
   best_model (fst (snd (train_models demo_library (init ''sdn_dataset.csv'')
      demo_X_train demo_X_test demo_y_train [4, 5] empty_world))) = None \<and>
   best_model_name (fst (snd (train_models demo_library (init ''sdn_dataset.csv'')
      demo_X_train demo_X_test demo_y_train [4, 5] empty_world))) = None"
proof -
  let ?run = "train_models demo_library (init ''sdn_dataset.csv'')
                demo_X_train demo_X_test demo_y_train [4, 5] empty_world"
  let ?R = "[(''Random Forest'',
           \<lparr>model = (RandomForestClassifier 100 42, demo_y_train), accuracy = 0,
              predictions = [1, 1]\<rparr>),
          (''K-Nearest Neighbors'',
           \<lparr>model = (KNeighborsClassifier 5, demo_y_train), accuracy = 0,
              predictions = [2, 2]\<rparr>),
          (''Decision Tree'',
           \<lparr>model = (DecisionTreeClassifier 10 42, demo_y_train), accuracy = 0,
              predictions = [2, 2]\<rparr>),
          (''SVM'',
           \<lparr>model = (SVC ''rbf'' 42, demo_y_train), accuracy = 0, predictions = [3, 3]\<rparr>)]"
  have r: "fst ?run = Inr ?R"
    by (simp add: run_defs)
  then have run: "?run = (Inr ?R, fst (snd ?run), snd (snd ?run))"
    by (metis prod.collapse)
  have zero: "\<forall>x\<in>set ?R. accuracy (snd x) = 0"
    by simp
  from train_models_all_zero_keeps_no_best[OF run zero] show ?thesis
    using r by simp
qed

subsection \<open>C3: the minimum-row guard of \<open>main\<close>\<close>

text \<open>
  C3: when \<open>load_data\<close> returns \<open>None\<close> or a table of fewer than 10 rows, \<open>main\<close>
  returns before any training step: it ends without an exception, the file system is
  as it was (so \<open>sdn_best_model.pkl\<close> is not written), and what has been printed is
  the banner and the output of \<open>load_data\<close>, followed by the two lines of the
  insufficient-data message.
\<close>

theorem main_aborts_on_insufficient_data:
  assumes "case fst (load_data L (init ''sdn_dataset.csv'') w) of
             None \<Rightarrow> True | Some df \<Rightarrow> len_df df < 10"
  shows "fst (main L w) = Inr () \<and>
     files (snd (main L w)) = files w \<and>
     snd (main L w) =
       print ''Please run the simulation longer to collect more samples.''
         (print (nl @ ''Insufficient data for training!'')
            (snd (snd (load_data L (init ''sdn_dataset.csv'')
               (print (rule_line 60)
                  (print ''SDN SMART ROUTING - ML TRAINING'' (print (rule_line 60) w)))))))"
proof -
  let ?w3 = "print (rule_line 60)
                  (print ''SDN SMART ROUTING - ML TRAINING'' (print (rule_line 60) w))"
  let ?t = "init ''sdn_dataset.csv'' :: ('a, 'b) trainer"
  obtain d t1 w4 where ld: "load_data L ?t ?w3 = (d, t1, w4)"
    by (metis prod_cases3)
  have "fst (load_data L ?t ?w3) = fst (load_data L ?t w)"
    by (simp only: load_data_print)
  with ld assms have d: "case d of None \<Rightarrow> True | Some df \<Rightarrow> len_df df < 10"
    by simp
  have fw: "files w4 = files w"
    using load_data_world[of L ?t ?w3] ld by (simp add: files_print)
  have m: "main L w = (Inr (),
       print ''Please run the simulation longer to collect more samples.''
         (print (nl @ ''Insufficient data for training!'') w4))"
    using ld d by (cases d) (simp_all add: main_def Let_def)
  show ?thesis using m ld fw by (simp add: files_print)
qed

theorem main_aborts_on_insufficient_data_witness:
  "fst (load_data demo_library (init ''sdn_dataset.csv'') empty_world) = None \<and>
   fst (main demo_library empty_world) = Inr () \<and>
   files (snd (main demo_library empty_world)) ''sdn_best_model.pkl'' = None \<and>
   fst (load_data demo_library (init ''sdn_dataset.csv'')
          (empty_world\<lparr>files := [''sdn_dataset.csv'' \<mapsto> Raw ''123456789'']\<rparr>)) =
     Some (demo_table (length ''123456789'')) \<and>
   len_df (demo_table (length ''123456789'')) = 9 \<and>
   fst (main demo_library (empty_world\<lparr>files := [''sdn_dataset.csv'' \<mapsto> Raw ''123456789'']\<rparr>)) =
     Inr () \<and>
   files (snd (main demo_library
       (empty_world\<lparr>files := [''sdn_dataset.csv'' \<mapsto> Raw ''123456789'']\<rparr>)))
     ''sdn_best_model.pkl'' = None"
proof -
  let ?w = "empty_world\<lparr>files := [''sdn_dataset.csv'' \<mapsto> Raw ''123456789'']\<rparr>
              :: (demo_model, rat list) world"
  let ?e = "empty_world :: (demo_model, rat list) world"
  have a: "fst (load_data demo_library (init ''sdn_dataset.csv'') ?e) = None"
    by (simp add: load_data_def demo_library_def init_def print_def empty_world_def Let_def)
  have b: "fst (load_data demo_library (init ''sdn_dataset.csv'') ?w) =
      Some (demo_table (length ''123456789''))"
    by (simp add: load_data_def demo_library_def init_def print_def empty_world_def Let_def)
  have c: "len_df (demo_table (length ''123456789'')) = 9"
    by (simp add: len_df_demo_table)
  have h1: "case fst (load_data demo_library (init ''sdn_dataset.csv'') ?e) of
             None \<Rightarrow> True | Some df \<Rightarrow> len_df df < 10"
    by (simp add: a)
  have h2: "case fst (load_data demo_library (init ''sdn_dataset.csv'') ?w) of
             None \<Rightarrow> True | Some df \<Rightarrow> len_df df < 10"
    by (simp add: b len_df_demo_table)
  from main_aborts_on_insufficient_data[OF h1]
  have m1: "fst (main demo_library ?e) = Inr ()"
    and f1: "files (snd (main demo_library ?e)) = files ?e"
    by blast+
  from main_aborts_on_insufficient_data[OF h2]
  have m2: "fst (main demo_library ?w) = Inr ()"
    and f2: "files (snd (main demo_library ?w)) = files ?w"
    by blast+
  have "files ?e ''sdn_best_model.pkl'' = None" "files ?w ''sdn_best_model.pkl'' = None"
    by (simp_all add: empty_world_def)
  then show ?thesis using a b c m1 m2 f1 f2 by simp
qed

subsection \<open>C2: saving and loading the bundle\<close>

text \<open>
  C2: for a trainer that holds a best model and its name, \<open>save_model\<close> to a path
  followed by \<open>load_model\<close> from that path, on any trainer, succeeds and restores the
  same best-model name, accuracy, model and scaler; so \<open>predict_path\<close> on the restored
  trainer returns what it returns on the saved one, for every input. The file system
  is taken to hand back the object \<open>joblib.dump\<close> stored.
\<close>

theorem save_then_load_roundtrip:
  assumes "best_model st = Some m" and "best_model_name st = Some name"
  shows "\<exists>w1 st1 w2.
     save_model L st filename w = (Inr (), st, w1) \<and>
     load_model L st0 filename w1 = (Inr (), st1, w2) \<and>
     best_model_name st1 = Some name \<and>
     best_accuracy st1 = best_accuracy st \<and>
     best_model st1 = Some m \<and>
     scaler st1 = scaler st \<and>
     (\<forall>a b c d e f g v. fst (predict_path L st1 a b c d e f g v) =
                          fst (predict_path L st a b c d e f g v))"
  using assms
  by (simp add: save_model_def load_model_def joblib_load_def getitem_dict_def predict_path_def
        print_def Let_def split: option.splits sum.splits)

theorem save_then_load_roundtrip_witness:
  "best_model demo_trainer = Some (KNeighborsClassifier 5, demo_y_train) \<and>
   best_model_name demo_trainer = Some ''K-Nearest Neighbors'' \<and>
   best_model_name (fst (snd (load_model demo_library (init ''other.csv'') ''sdn_best_model.pkl''
      (snd (snd (save_model demo_library demo_trainer ''sdn_best_model.pkl'' empty_world)))))) =
     Some ''K-Nearest Neighbors'' \<and>
   best_accuracy (fst (snd (load_model demo_library (init ''other.csv'') ''sdn_best_model.pkl''
      (snd (snd (save_model demo_library demo_trainer ''sdn_best_model.pkl'' empty_world)))))) =
     3 / 4 \<and>
   fst (predict_path demo_library
      (fst (snd (load_model demo_library (init ''other.csv'') ''sdn_best_model.pkl''
         (snd (snd (save_model demo_library demo_trainer ''sdn_best_model.pkl'' empty_world))))))
      1 3 85 90 50 (5 / 100) 75 empty_world) = Inr (Some 2)"
proof -
  have h1: "best_model demo_trainer = Some (KNeighborsClassifier 5, demo_y_train)"
    and h2: "best_model_name demo_trainer = Some ''K-Nearest Neighbors''"
    by (simp_all add: demo_trainer_def)
  from save_then_load_roundtrip[OF h1 h2, where L = demo_library
      and filename = "''sdn_best_model.pkl''" and w = empty_world and ?st0.0 = "init ''other.csv''"]
  obtain w1 st1 w2 where
    s: "save_model demo_library demo_trainer ''sdn_best_model.pkl'' empty_world =
          (Inr (), demo_trainer, w1)"
    and l: "load_model demo_library (init ''other.csv'') ''sdn_best_model.pkl'' w1 =
          (Inr (), st1, w2)"
    and n: "best_model_name st1 = Some ''K-Nearest Neighbors''"
    and a: "best_accuracy st1 = best_accuracy demo_trainer"
    and p: "\<forall>a b c d e f g v. fst (predict_path demo_library st1 a b c d e f g v) =
                          fst (predict_path demo_library demo_trainer a b c d e f g v)"
    by blast
  have "fst (predict_path demo_library demo_trainer 1 3 85 90 50 (5 / 100) 75 empty_world) =
          Inr (Some 2)"
    by (simp add: predict_path_def demo_trainer_def demo_library_def demo_predict_def
          demo_label_def demo_y_train_def init_def getitem_def Let_def)
  moreover have "best_accuracy demo_trainer = 3 / 4"
    by (simp add: demo_trainer_def)
  ultimately show ?thesis using h1 h2 s l n a p by simp
qed

subsection \<open>C4: the scaler is fitted on the train partition only\<close>

text \<open>
  C4: when \<open>preprocess_data\<close> returns, the scaler of the trainer is the result of one
  fit on the features of the train partition of the split, and both scaled matrices
  are transforms under exactly those parameters; no other field of the trainer
  changes. \<open>predict_path\<close> leaves the trainer, and so the scaler, as it was.
\<close>

theorem scaler_fitted_on_train_partition_only:
  assumes "preprocess_data L st df w =
             (Inr (X_train_scaled, X_test_scaled, y_train, y_test, X_train, X_test), st', w')"
  shows "(\<exists>X y p.
       getitem_columns df feature_cols = Inr X \<and>
       getitem_column df target_col = Inr y \<and>
       train_test_split L X y (1 / 5) 42 y = Inr (X_train, X_test, y_train, y_test) \<and>
       scaler_fit L (to_numpy X_train) = Inr p \<and>
       st' = st\<lparr>scaler := Some p\<rparr> \<and>
       scaler_transform L p (to_numpy X_train) = Inr X_train_scaled \<and>
       scaler_transform L p (to_numpy X_test) = Inr X_test_scaled) \<and>
     (\<forall>t a b c d e f g v. fst (snd (predict_path L t a b c d e f g v)) = t)"
proof
  show "\<forall>t a b c d e f g v. fst (snd (predict_path L t a b c d e f g v)) = t"
    by (simp add: predict_path_def Let_def split: option.splits sum.splits)
next
  from assms show "\<exists>X y p.
       getitem_columns df feature_cols = Inr X \<and>
       getitem_column df target_col = Inr y \<and>
       train_test_split L X y (1 / 5) 42 y = Inr (X_train, X_test, y_train, y_test) \<and>
       scaler_fit L (to_numpy X_train) = Inr p \<and>
       st' = st\<lparr>scaler := Some p\<rparr> \<and>
       scaler_transform L p (to_numpy X_train) = Inr X_train_scaled \<and>
       scaler_transform L p (to_numpy X_test) = Inr X_test_scaled"
    unfolding preprocess_data_def Let_def
    by (auto split: sum.splits prod.splits)
qed

theorem scaler_fitted_on_train_partition_only_witness:
  "fst (preprocess_data demo_library (init ''sdn_dataset.csv'') (demo_table 5) empty_world) =
     Inr ([[- (3 / 2), - (3 / 2), - (3 / 2), - (3 / 2), - (3 / 2), - (3 / 2), - (3 / 2)],
           [- (1 / 2), - (1 / 2), - (1 / 2), - (1 / 2), - (1 / 2), - (1 / 2), - (1 / 2)],
           [1 / 2, 1 / 2, 1 / 2, 1 / 2, 1 / 2, 1 / 2, 1 / 2],
           [3 / 2, 3 / 2, 3 / 2, 3 / 2, 3 / 2, 3 / 2, 3 / 2]],
          [[- (5 / 2), - (5 / 2), - (5 / 2), - (5 / 2), - (5 / 2), - (5 / 2), - (5 / 2)]],
          [2, 3, 1, 2], [1],
          map (\<lambda>c. (c, [1, 2, 3, 4])) feature_cols,
          map (\<lambda>c. (c, [0])) feature_cols) \<and>
   scaler (fst (snd (preprocess_data demo_library (init ''sdn_dataset.csv'') (demo_table 5)
      empty_world))) = Some [5 / 2, 5 / 2, 5 / 2, 5 / 2, 5 / 2, 5 / 2, 5 / 2] \<and>
   fst (snd (predict_path demo_library demo_trainer 1 3 85 90 50 (5 / 100) 75 empty_world)) =
     demo_trainer"
proof -
  let ?run = "preprocess_data demo_library (init ''sdn_dataset.csv'') (demo_table 5) empty_world"
  let ?Xtr = "map (\<lambda>c. (c, [1, 2, 3, 4 :: rat])) feature_cols"
  let ?Xte = "map (\<lambda>c. (c, [0 :: rat])) feature_cols"
  let ?out = "([[- (3 / 2), - (3 / 2), - (3 / 2), - (3 / 2), - (3 / 2), - (3 / 2), - (3 / 2)],
           [- (1 / 2), - (1 / 2), - (1 / 2), - (1 / 2), - (1 / 2), - (1 / 2), - (1 / 2)],
           [1 / 2, 1 / 2, 1 / 2, 1 / 2, 1 / 2, 1 / 2, 1 / 2],
           [3 / 2, 3 / 2, 3 / 2, 3 / 2, 3 / 2, 3 / 2, 3 / 2]],
          [[- (5 / 2), - (5 / 2), - (5 / 2), - (5 / 2), - (5 / 2), - (5 / 2), - (5 / 2 :: rat)]],
          [2, 3, 1, 2 :: rat], [1 :: rat], ?Xtr, ?Xte)"
  have r: "fst ?run = Inr ?out"
    by code_simp
  then have run: "?run = (Inr ?out, fst (snd ?run), snd (snd ?run))"
    by (metis prod.collapse)
  from scaler_fitted_on_train_partition_only[OF run] obtain p where
    p: "scaler_fit demo_library (to_numpy ?Xtr) = Inr p"
    and st: "fst (snd ?run) = (init ''sdn_dataset.csv'')\<lparr>scaler := Some p\<rparr>"
    and frame: "\<forall>t a b c d e f g v. fst (snd (predict_path demo_library t a b c d e f g v)) = t"
    by blast
  have "scaler_fit demo_library (to_numpy ?Xtr) =
          Inr [5 / 2, 5 / 2, 5 / 2, 5 / 2, 5 / 2, 5 / 2, 5 / 2]"
    by code_simp
  with p have "p = [5 / 2, 5 / 2, 5 / 2, 5 / 2, 5 / 2, 5 / 2, 5 / 2]"
    by simp
  with st r frame show ?thesis by simp
qed

subsection \<open>C5: a table with a missing column\<close>

text \<open>
  Selecting columns that are all present succeeds; selecting others raises a
  \<open>KeyError\<close> that names exactly the absent ones.
\<close>

lemma getitem_columns_missing:
  assumes "\<not> set cols \<subseteq> fst ` set df"
  shows "\<exists>missing. getitem_columns df cols = Inl (KeyError missing) \<and> missing \<noteq> [] \<and>
           set missing = set cols - fst ` set df"
proof -
  let ?missing = "filter (\<lambda>c. map_of df c = None) cols"
  have s: "set ?missing = set cols - fst ` set df"
    by (auto simp: map_of_eq_None_iff)
  with assms have "?missing \<noteq> []"
    by (metis Diff_eq_empty_iff set_empty)
  then show ?thesis using s by (simp add: getitem_columns_def Let_def)
qed

lemma getitem_columns_present:
  assumes "set cols \<subseteq> fst ` set df"
  shows "\<exists>X. getitem_columns df cols = Inr X"
proof -
  have "filter (\<lambda>c. map_of df c = None) cols = []"
    using assms by (auto simp: filter_empty_conv map_of_eq_None_iff)
  then show ?thesis by (simp add: getitem_columns_def Let_def)
qed

text \<open>
  C5, as stated: for a table that lacks a required column, \<open>preprocess_data\<close> surfaces
  a clear schema-mismatch error. The method has no check of the table's columns and no
  error of its own: on the table below, which lacks \<open>path_quality\<close>, what leaves
  \<open>preprocess_data\<close> is the \<open>KeyError\<close> that the subscript \<open>df[feature_cols]\<close>
  raises inside pandas, as it is.
\<close>

theorem preprocess_data_missing_column_counterexample:
  "getitem_columns
     [(''src_addr'', [1, 2]), (''dest_addr'', [3, 4]), (''src_battery'', [85, 80]),
      (''dest_battery'', [90, 70]), (''path_distance'', [50, 60]),
      (''path_delay'', [1, 2]), (''chosen_path'', [1, 2])] feature_cols =
     Inl (KeyError [''path_quality'']) \<and>
   fst (preprocess_data demo_library (init ''sdn_dataset.csv'')
          [(''src_addr'', [1, 2]), (''dest_addr'', [3, 4]), (''src_battery'', [85, 80]),
           (''dest_battery'', [90, 70]), (''path_distance'', [50, 60]),
           (''path_delay'', [1, 2]), (''chosen_path'', [1, 2])] empty_world) =
     Inl (KeyError [''path_quality''])"
  by (simp add: preprocess_data_def getitem_columns_def feature_cols_def Let_def)

text \<open>
  C5, amended: for every table that lacks at least one of the seven feature columns
  or the target column, \<open>preprocess_data\<close> makes no schema check of its own: the
  column selection (the feature columns first, then the target column) raises pandas'
  \<open>KeyError\<close>, which names missing required columns, and \<open>preprocess_data\<close> lets it
  through unchanged, before anything is split, fitted or scaled. The trainer is
  untouched and only the first progress line has been printed.
\<close>

theorem preprocess_data_missing_column_key_error:
  assumes "\<not> set (feature_cols @ [target_col]) \<subseteq> fst ` set df"
  shows "\<exists>missing.
     preprocess_data L st df w =
       (Inl (KeyError missing), st, print (nl @ ''Preprocessing data...'') w) \<and>
     missing \<noteq> [] \<and>
     set missing \<subseteq> set (feature_cols @ [target_col]) - fst ` set df \<and>
     (getitem_columns df feature_cols = Inl (KeyError missing) \<or>
      (\<exists>X. getitem_columns df feature_cols = Inr X) \<and>
      getitem_column df target_col = Inl (KeyError missing))"
proof (cases "set feature_cols \<subseteq> fst ` set df")
  case False
  from getitem_columns_missing[OF this] obtain missing where
    m: "getitem_columns df feature_cols = Inl (KeyError missing)" "missing \<noteq> []"
       "set missing = set feature_cols - fst ` set df"
    by blast
  have "preprocess_data L st df w =
       (Inl (KeyError missing), st, print (nl @ ''Preprocessing data...'') w)"
    using m(1) by (simp add: preprocess_data_def Let_def)
  with m show ?thesis by auto
next
  case True
  then obtain X where X: "getitem_columns df feature_cols = Inr X"
    using getitem_columns_present by blast
  from True assms have absent: "target_col \<notin> fst ` set df" by auto
  then have t: "getitem_column df target_col = Inl (KeyError [target_col])"
    by (simp add: getitem_column_def map_of_eq_None_iff[THEN iffD2])
  have "preprocess_data L st df w =
       (Inl (KeyError [target_col]), st, print (nl @ ''Preprocessing data...'') w)"
    using X t by (simp add: preprocess_data_def Let_def)
  with absent X t show ?thesis by auto
qed

theorem preprocess_data_missing_column_key_error_witness:
  "\<not> set (feature_cols @ [target_col]) \<subseteq>
       fst ` set [(''src_addr'', [1, 2]), (''dest_addr'', [3, 4]), (''src_battery'', [85, 80]),
                  (''dest_battery'', [90, 70]), (''path_distance'', [50, 60]),
                  (''path_quality'', [75, 60 :: rat])] \<and>
   preprocess_data demo_library demo_trainer
          [(''src_addr'', [1, 2]), (''dest_addr'', [3, 4]), (''src_battery'', [85, 80]),
           (''dest_battery'', [90, 70]), (''path_distance'', [50, 60]),
           (''path_quality'', [75, 60])] empty_world =
     (Inl (KeyError [''path_delay'']), demo_trainer,
      empty_world\<lparr>stdout := [nl @ ''Preprocessing data...'']\<rparr>)"
proof -
  let ?df = "[(''src_addr'', [1, 2]), (''dest_addr'', [3, 4]), (''src_battery'', [85, 80]),
                  (''dest_battery'', [90, 70]), (''path_distance'', [50, 60]),
                  (''path_quality'', [75, 60 :: rat])]"
  have h: "\<not> set (feature_cols @ [target_col]) \<subseteq> fst ` set ?df"
    by (simp add: feature_cols_def target_col_def)
  from preprocess_data_missing_column_key_error[OF h, where L = demo_library
      and st = demo_trainer and w = empty_world]
  obtain missing where
    run: "preprocess_data demo_library demo_trainer ?df empty_world =
       (Inl (KeyError missing), demo_trainer,
        print (nl @ ''Preprocessing data...'') empty_world)"
    by blast
  moreover have "fst (preprocess_data demo_library demo_trainer ?df empty_world) =
     Inl (KeyError [''path_delay''])"
    by (simp add: preprocess_data_def getitem_columns_def feature_cols_def Let_def)
  ultimately have "missing = [''path_delay'']"
    by simp
  with run h show ?thesis
    by (simp add: print_def empty_world_def)
qed

subsection \<open>C6: the guard of \<open>save_model\<close>\<close>

text \<open>
  C6, as stated: when no model has been trained yet, \<open>save_model\<close> writes no artifact
  and emits a logged message. The method prints in the branch that saves only: on a
  new trainer it prints nothing.
\<close>

theorem save_model_without_model_counterexample:
  "best_model (init ''sdn_dataset.csv'' :: (demo_model, rat list) trainer) = None \<and>
   stdout (snd (snd (save_model demo_library (init ''sdn_dataset.csv'') ''sdn_best_model.pkl''
      empty_world))) = []"
  by (simp add: save_model_def init_def empty_world_def)

text \<open>
  C6, amended: when no model has been trained yet (the best model is \<open>None\<close>),
  \<open>save_model\<close> is a silent no-op: it writes no artifact, prints nothing and leaves
  the trainer as it was. When a best model exists (and its name is set), it stores
  exactly the best model, the scaler, the best-model name and the best accuracy as one
  artifact at the given path, and prints the line \<open>Model saved: <path>\<close>.
\<close>

theorem save_model_guard:
  "(best_model st = None \<longrightarrow> save_model L st filename w = (Inr (), st, w)) \<and>
   (best_model st = Some m \<and> best_model_name st = Some name \<longrightarrow>
      save_model L st filename w =
        (Inr (), st,
         w\<lparr>files := (files w)(filename \<mapsto>
               Pickle (Dict \<lparr>b_model = Some (Some m), b_scaler = Some (scaler st),
                              b_model_name = Some name,
                              b_accuracy = Some (best_accuracy st)\<rparr>)),
           stdout := stdout w @ [nl @ ''Model saved: '' @ filename]\<rparr>))"
  by (simp add: save_model_def print_def Let_def)

theorem save_model_guard_witness:
  "best_model (init ''sdn_dataset.csv'' :: (demo_model, rat list) trainer) = None \<and>
   files (snd (snd (save_model demo_library (init ''sdn_dataset.csv'') ''sdn_best_model.pkl''
      empty_world))) ''sdn_best_model.pkl'' = None \<and>
   best_model demo_trainer = Some (KNeighborsClassifier 5, demo_y_train) \<and>
   best_model_name demo_trainer = Some ''K-Nearest Neighbors'' \<and>
   files (snd (snd (save_model demo_library demo_trainer ''sdn_best_model.pkl'' empty_world)))
       ''sdn_best_model.pkl'' =
     Some (Pickle (Dict \<lparr>b_model = Some (Some (KNeighborsClassifier 5, demo_y_train)),
                         b_scaler = Some (Some [1, 2, 3, 4, 5, 6, 7]),
                         b_model_name = Some ''K-Nearest Neighbors'',
                         b_accuracy = Some (3 / 4)\<rparr>)) \<and>
   stdout (snd (snd (save_model demo_library demo_trainer ''sdn_best_model.pkl'' empty_world))) =
     [nl @ ''Model saved: sdn_best_model.pkl'']"
proof -
  have h0: "best_model (init ''sdn_dataset.csv'' :: (demo_model, rat list) trainer) = None"
    by (simp add: init_def)
  have h1: "best_model demo_trainer = Some (KNeighborsClassifier 5, demo_y_train) \<and>
            best_model_name demo_trainer = Some ''K-Nearest Neighbors''"
    by (simp add: demo_trainer_def)
  from save_model_guard[where st = "init ''sdn_dataset.csv''" and L = demo_library
      and filename = "''sdn_best_model.pkl''" and w = empty_world] h0
  have a: "save_model demo_library (init ''sdn_dataset.csv'') ''sdn_best_model.pkl'' empty_world =
             (Inr (), init ''sdn_dataset.csv'', empty_world)"
    by (simp add: empty_world_def)
  from save_model_guard[where st = demo_trainer and m = "(KNeighborsClassifier 5, demo_y_train)"
      and name = "''K-Nearest Neighbors''" and L = demo_library
      and filename = "''sdn_best_model.pkl''" and w = empty_world] h1
  have b: "save_model demo_library demo_trainer ''sdn_best_model.pkl'' empty_world =
        (Inr (), demo_trainer,
         empty_world\<lparr>files := [''sdn_best_model.pkl'' \<mapsto>
               Pickle (Dict \<lparr>b_model = Some (Some (KNeighborsClassifier 5, demo_y_train)),
                              b_scaler = Some (scaler demo_trainer),
                              b_model_name = Some ''K-Nearest Neighbors'',
                              b_accuracy = Some (best_accuracy demo_trainer)\<rparr>)],
           stdout := [nl @ ''Model saved: sdn_best_model.pkl'']\<rparr>)"
    by (simp add: empty_world_def)
  show ?thesis
    unfolding a b using h0 h1 by (simp add: empty_world_def demo_trainer_def)
qed

subsection \<open>C7: \<open>predict_path\<close>\<close>

text \<open>
  C7: with no model loaded, \<open>predict_path\<close> prints an error line and returns \<open>None\<close>,
  and the trainer and the file system are as before. With a model and a fitted scaler,
  it transforms the one-row matrix of the seven values with the stored scaler, calls
  the stored model's \<open>predict\<close> on the result and returns the first predicted label,
  changing nothing.
\<close>

theorem predict_path_null_or_label:
  "(best_model st = None \<longrightarrow>
      predict_path L st a b c d e f g w =
        (Inr None, st, w\<lparr>stdout := stdout w @ [''Error: No trained model available'']\<rparr>)) \<and>
   (best_model st = Some m \<and> scaler st = Some p \<and>
    scaler_transform L p [[a, b, c, d, e, f, g]] = Inr X_new_scaled \<and>
    predict L m X_new_scaled = Inr (y # ys) \<longrightarrow>
      predict_path L st a b c d e f g w = (Inr (Some y), st, w))"
  by (simp add: predict_path_def print_def Let_def getitem_def)

theorem predict_path_null_or_label_witness:
  "best_model (init ''sdn_dataset.csv'' :: (demo_model, rat list) trainer) = None \<and>
   fst (predict_path demo_library (init ''sdn_dataset.csv'') 1 3 85 90 50 (5 / 100) 75
          empty_world) = Inr None \<and>
   stdout (snd (snd (predict_path demo_library (init ''sdn_dataset.csv'') 1 3 85 90 50 (5 / 100) 75
          empty_world))) = [''Error: No trained model available''] \<and>
   best_model demo_trainer = Some (KNeighborsClassifier 5, demo_y_train) \<and>
   scaler demo_trainer = Some [1, 2, 3, 4, 5, 6, 7] \<and>
   scaler_transform demo_library [1, 2, 3, 4, 5, 6, 7] [[1, 3, 85, 90, 50, 5 / 100, 75]] =
     Inr [[0, 1, 82, 86, 45, 5 / 100 - 6, 68]] \<and>
   predict demo_library (KNeighborsClassifier 5, demo_y_train) [[0, 1, 82, 86, 45, 5 / 100 - 6, 68]] =
     Inr [2] \<and>
   predict_path demo_library demo_trainer 1 3 85 90 50 (5 / 100) 75 empty_world =
     (Inr (Some 2), demo_trainer, empty_world)"
proof -
  have h0: "best_model (init ''sdn_dataset.csv'' :: (demo_model, rat list) trainer) = None"
    by (simp add: init_def)
  have h1: "best_model demo_trainer = Some (KNeighborsClassifier 5, demo_y_train)"
    and h2: "scaler demo_trainer = Some [1, 2, 3, 4, 5, 6, 7]"
    by (simp_all add: demo_trainer_def)
  have h3: "scaler_transform demo_library [1, 2, 3, 4, 5, 6, 7]
              [[1, 3, 85, 90, 50, 5 / 100, 75]] =
            Inr [[0, 1, 82, 86, 45, 5 / 100 - 6, 68]]"
    by (simp add: demo_library_def)
  have h4: "predict demo_library (KNeighborsClassifier 5, demo_y_train)
              [[0, 1, 82, 86, 45, 5 / 100 - 6, 68]] = Inr [2]"
    by (simp add: demo_library_def demo_predict_def demo_label_def demo_y_train_def)
  from predict_path_null_or_label[where st = "init ''sdn_dataset.csv''" and L = demo_library
      and a = 1 and b = 3 and c = 85 and d = 90 and e = 50 and f = "5 / 100" and g = 75
      and w = empty_world] h0
  have a: "predict_path demo_library (init ''sdn_dataset.csv'') 1 3 85 90 50 (5 / 100) 75
             empty_world =
           (Inr None, init ''sdn_dataset.csv'',
            empty_world\<lparr>stdout := [''Error: No trained model available'']\<rparr>)"
    by (simp add: empty_world_def)
  from predict_path_null_or_label[where st = demo_trainer and m = "(KNeighborsClassifier 5, demo_y_train)"
      and p = "[1, 2, 3, 4, 5, 6, 7]" and L = demo_library
      and a = 1 and b = 3 and c = 85 and d = 90 and e = 50 and f = "5 / 100" and g = 75
      and X_new_scaled = "[[0, 1, 82, 86, 45, 5 / 100 - 6, 68]]" and y = 2 and ys = "[]"
      and w = empty_world] h1 h2 h3 h4
  have b: "predict_path demo_library demo_trainer 1 3 85 90 50 (5 / 100) 75 empty_world =
             (Inr (Some 2), demo_trainer, empty_world)"
    by (simp add: empty_world_def)
  show ?thesis
    unfolding a using b h0 h1 h2 h3 h4 by (simp add: empty_world_def)
qed

subsection \<open>C8: the feature-importance step\<close>

text \<open>
  The ranking loop prints, for each index in turn, its rank, the feature name and the
  importance at that index, provided every index is in range; nothing else happens
  to the world.
\<close>

lemma print_ranking_in_range:
  assumes "\<forall>i\<in>set idxs. i < length names \<and> i < length imps"
  shows "print_ranking L names imps k idxs w =
     (Inr (),
      w\<lparr>stdout := stdout w @
           map (\<lambda>(j, i). str_nat (j + 1) @ ''. '' @ names ! i @ '': '' @
                           format_f L 4 (imps ! i))
             (enumerate k idxs)\<rparr>)"
  using assms
proof (induction idxs arbitrary: k w)
  case Nil
  then show ?case by simp
next
  case (Cons i idxs)
  let ?w1 = "print (str_nat (k + 1) @ ''. '' @ names ! i @ '': '' @ format_f L 4 (imps ! i)) w"
  from Cons.prems have "\<forall>i\<in>set idxs. i < length names \<and> i < length imps" by simp
  from Cons.IH[OF this, of "k + 1" ?w1]
  have "print_ranking L names imps (k + 1) idxs ?w1 =
     (Inr (),
      ?w1\<lparr>stdout := stdout ?w1 @
           map (\<lambda>(j, i). str_nat (j + 1) @ ''. '' @ names ! i @ '': '' @
                           format_f L 4 (imps ! i))
             (enumerate (k + 1) idxs)\<rparr>)" .
  then show ?case
    using Cons.prems by (simp add: getitem_def print_def)
qed

text \<open>
  C8: the feature-importance report and \<open>feature_importance.png\<close> are produced if and
  only if the best model is one of the two tree-based variants. When the best-model
  name is not one of these, the world is left as it was, and for a best model of
  another name (the nearest-neighbours and the support-vector classifier) the step
  returns without an error. When the name is one of the two tree-based ones (and the
  model exposes its importances, with the sorted indices in range), the output is
  the heading, one ranking line for each feature in descending order of importance
  (rank, feature name, importance) and the line that names the file, and the file
  holds the chart of the importances and feature names in that order.
\<close>

theorem feature_importance_iff_tree_based:
  "(best_model_name st \<notin> {Some ''Random Forest'', Some ''Decision Tree''} \<longrightarrow>
      snd (snd (feature_importance L st X_train_original w)) = w) \<and>
   (best_model_name st = Some name \<and> name \<notin> {''Random Forest'', ''Decision Tree''} \<longrightarrow>
      feature_importance L st X_train_original w = (Inr (), st, w)) \<and>
   (best_model_name st \<in> {Some ''Random Forest'', Some ''Decision Tree''} \<and>
    best_model st = Some m \<and> feature_importances L m = Inr importances \<and>
    (\<forall>i\<in>set (argsort L importances).
        i < length X_train_original \<and> i < length importances) \<longrightarrow>
      feature_importance L st X_train_original w =
         (Inr (), st,
          w\<lparr>files := (files w)(''feature_importance.png'' \<mapsto>
                Png (FeatureImportance
                       (map (\<lambda>i. importances ! i) (rev (argsort L importances)))
                       (map (\<lambda>i. map fst X_train_original ! i)
                          (rev (argsort L importances))))),
            stdout := stdout w @
              [nl @ rule_line 50, ''FEATURE IMPORTANCE'', rule_line 50,
               nl @ ''Feature ranking:''] @
              map (\<lambda>(j, i). str_nat (j + 1) @ ''. '' @ map fst X_train_original ! i @ '': '' @
                              format_f L 4 (importances ! i))
                (enumerate 0 (rev (argsort L importances))) @
              [''Saved: feature_importance.png'']\<rparr>))"
proof (intro conjI impI)
  assume "best_model_name st \<notin> {Some ''Random Forest'', Some ''Decision Tree''}"
  then show "snd (snd (feature_importance L st X_train_original w)) = w"
    by (auto simp: feature_importance_def split: option.splits)
next
  assume "best_model_name st = Some name \<and> name \<notin> {''Random Forest'', ''Decision Tree''}"
  then show "feature_importance L st X_train_original w = (Inr (), st, w)"
    by (auto simp: feature_importance_def)
next
  assume a: "best_model_name st \<in> {Some ''Random Forest'', Some ''Decision Tree''} \<and>
    best_model st = Some m \<and> feature_importances L m = Inr importances \<and>
    (\<forall>i\<in>set (argsort L importances).
        i < length X_train_original \<and> i < length importances)"
  let ?idx = "rev (argsort L importances)"
  let ?w4 = "print (nl @ ''Feature ranking:'') (print (rule_line 50)
               (print ''FEATURE IMPORTANCE'' (print (nl @ rule_line 50) w)))"
  from a have "\<forall>i\<in>set ?idx. i < length (map fst X_train_original) \<and> i < length importances"
    by simp
  note out = print_ranking_in_range[OF this, of L 0 ?w4]
  from a obtain name where n: "best_model_name st = Some name"
     "name \<in> set [''Random Forest'', ''Decision Tree'']"
    by auto
  show "feature_importance L st X_train_original w =
         (Inr (), st,
          w\<lparr>files := (files w)(''feature_importance.png'' \<mapsto>
                Png (FeatureImportance
                       (map (\<lambda>i. importances ! i) (rev (argsort L importances)))
                       (map (\<lambda>i. map fst X_train_original ! i)
                          (rev (argsort L importances))))),
            stdout := stdout w @
              [nl @ rule_line 50, ''FEATURE IMPORTANCE'', rule_line 50,
               nl @ ''Feature ranking:''] @
              map (\<lambda>(j, i). str_nat (j + 1) @ ''. '' @ map fst X_train_original ! i @ '': '' @
                              format_f L 4 (importances ! i))
                (enumerate 0 (rev (argsort L importances))) @
              [''Saved: feature_importance.png'']\<rparr>)"
    unfolding feature_importance_def Let_def
    using n a out by (simp add: print_def savefig_def)
qed

theorem feature_importance_iff_tree_based_witness:
  "best_model_name demo_trainer = Some ''K-Nearest Neighbors'' \<and>
   feature_importance demo_library demo_trainer (map (\<lambda>c. (c, [0])) feature_cols) empty_world =
     (Inr (), demo_trainer, empty_world) \<and>
   best_model_name demo_tree_trainer = Some ''Decision Tree'' \<and>
   best_model demo_tree_trainer = Some (DecisionTreeClassifier 10 42, demo_y_train) \<and>
   feature_importances demo_library (DecisionTreeClassifier 10 42, demo_y_train) =
     Inr [7 / 28, 6 / 28, 5 / 28, 4 / 28, 3 / 28, 2 / 28, 1 / 28] \<and>
   argsort demo_library [7 / 28, 6 / 28, 5 / 28, 4 / 28, 3 / 28, 2 / 28, 1 / 28] =
     [6, 5, 4, 3, 2, 1, 0] \<and>
   fst (feature_importance demo_library demo_tree_trainer (map (\<lambda>c. (c, [0])) feature_cols)
          empty_world) = Inr () \<and>
   files (snd (snd (feature_importance demo_library demo_tree_trainer
       (map (\<lambda>c. (c, [0])) feature_cols) empty_world))) ''feature_importance.png'' =
     Some (Png (FeatureImportance [7 / 28, 6 / 28, 5 / 28, 4 / 28, 3 / 28, 2 / 28, 1 / 28]
                  feature_cols)) \<and>
   stdout (snd (snd (feature_importance demo_library demo_tree_trainer
       (map (\<lambda>c. (c, [0])) feature_cols) empty_world))) =
     [nl @ rule_line 50, ''FEATURE IMPORTANCE'', rule_line 50, nl @ ''Feature ranking:'',
      ''1. src_addr: <float>'', ''2. dest_addr: <float>'', ''3. src_battery: <float>'',
      ''4. dest_battery: <float>'', ''5. path_distance: <float>'', ''6. path_delay: <float>'',
      ''7. path_quality: <float>'', ''Saved: feature_importance.png'']"
proof -
  let ?X = "map (\<lambda>c. (c, [0 :: rat])) feature_cols"
  let ?imps = "[7 / 28, 6 / 28, 5 / 28, 4 / 28, 3 / 28, 2 / 28, 1 / 28 :: rat]"
  let ?e = "empty_world :: (demo_model, rat list) world"
  have k: "best_model_name demo_trainer = Some ''K-Nearest Neighbors'' \<and>
           ''K-Nearest Neighbors'' \<notin> {''Random Forest'', ''Decision Tree''}"
    by (simp add: demo_trainer_def)
  have n: "best_model_name demo_tree_trainer = Some ''Decision Tree''"
    and m: "best_model demo_tree_trainer = Some (DecisionTreeClassifier 10 42, demo_y_train)"
    by (simp_all add: demo_tree_trainer_def)
  have imps: "feature_importances demo_library (DecisionTreeClassifier 10 42, demo_y_train) =
                Inr ?imps"
    by (simp add: demo_library_def)
  have srt: "argsort demo_library ?imps = [6, 5, 4, 3, 2, 1, 0]"
    by code_simp
  have rng: "\<forall>i\<in>set (argsort demo_library ?imps). i < length ?X \<and> i < length ?imps"
    unfolding srt by (simp add: feature_cols_def)
  from feature_importance_iff_tree_based[where st = demo_trainer
      and name = "''K-Nearest Neighbors''" and L = demo_library and X_train_original = ?X
      and w = empty_world] k
  have a: "feature_importance demo_library demo_trainer ?X empty_world =
             (Inr (), demo_trainer, empty_world)"
    by blast
  from feature_importance_iff_tree_based[where st = demo_tree_trainer
      and name = "''Decision Tree''"
      and m = "(DecisionTreeClassifier 10 42, demo_y_train)" and importances = ?imps
      and L = demo_library and X_train_original = ?X and w = empty_world] n m imps rng
  have b: "feature_importance demo_library demo_tree_trainer ?X empty_world =
         (Inr (), demo_tree_trainer,
          ?e\<lparr>files := (files ?e)(''feature_importance.png'' \<mapsto>
                Png (FeatureImportance
                       (map (\<lambda>i. ?imps ! i) (rev (argsort demo_library ?imps)))
                       (map (\<lambda>i. map fst ?X ! i) (rev (argsort demo_library ?imps))))),
            stdout := stdout ?e @
              [nl @ rule_line 50, ''FEATURE IMPORTANCE'', rule_line 50,
               nl @ ''Feature ranking:''] @
              map (\<lambda>(j, i). str_nat (j + 1) @ ''. '' @ map fst ?X ! i @ '': '' @
                              format_f demo_library 4 (?imps ! i))
                (enumerate 0 (rev (argsort demo_library ?imps))) @
              [''Saved: feature_importance.png'']\<rparr>)"
    by blast
  have c: "map (\<lambda>i. ?imps ! i) (rev [6, 5, 4, 3, 2, 1, 0]) = ?imps"
    "map (\<lambda>i. map fst ?X ! i) (rev [6, 5, 4, 3, 2, 1, 0]) = feature_cols"
    by (simp_all add: feature_cols_def)
  have d: "map (\<lambda>(j, i). str_nat (j + 1) @ ''. '' @ map fst ?X ! i @ '': '' @
                              format_f demo_library 4 (?imps ! i))
                (enumerate 0 (rev [6, 5, 4, 3, 2, 1, 0])) =
      [''1. src_addr: <float>'', ''2. dest_addr: <float>'', ''3. src_battery: <float>'',
       ''4. dest_battery: <float>'', ''5. path_distance: <float>'', ''6. path_delay: <float>'',
       ''7. path_quality: <float>'']"
    by code_simp
  have f: "files (snd (snd (feature_importance demo_library demo_tree_trainer ?X empty_world)))
             ''feature_importance.png'' = Some (Png (FeatureImportance ?imps feature_cols))"
    unfolding b srt c by simp
  have g: "fst (feature_importance demo_library demo_tree_trainer ?X empty_world) = Inr ()"
    unfolding b by simp
  have h: "stdout (snd (snd (feature_importance demo_library demo_tree_trainer ?X empty_world))) =
     [nl @ rule_line 50, ''FEATURE IMPORTANCE'', rule_line 50, nl @ ''Feature ranking:'',
      ''1. src_addr: <float>'', ''2. dest_addr: <float>'', ''3. src_battery: <float>'',
      ''4. dest_battery: <float>'', ''5. path_distance: <float>'', ''6. path_delay: <float>'',
      ''7. path_quality: <float>'', ''Saved: feature_importance.png'']"
    unfolding b srt d by (simp add: empty_world_def)
  show ?thesis
    using k n m imps srt a f g h by simp
qed

subsection \<open>C10: what \<open>load_model\<close> leaves alone\<close>

text \<open>
  C10: whatever the file holds, the trainer after \<open>load_model\<close> differs from the
  trainer before it in at most the four fields best model, scaler, best-model name
  and best accuracy: the dataset path, the registry of per-variant results and every
  other part of the trainer keep their values, and no file is written. When the file
  holds a dictionary with the four keys, exactly these four fields are replaced by
  the stored values, and \<open>load_model\<close> returns normally only then.
\<close>

theorem load_model_frame:
  "dataset_path (fst (snd (load_model L st filename w))) = dataset_path st \<and>
   models (fst (snd (load_model L st filename w))) = models st \<and>
   fst (snd (load_model L st filename w)) =
     st\<lparr>best_model := best_model (fst (snd (load_model L st filename w))),
        scaler := scaler (fst (snd (load_model L st filename w))),
        best_model_name := best_model_name (fst (snd (load_model L st filename w))),
        best_accuracy := best_accuracy (fst (snd (load_model L st filename w)))\<rparr> \<and>
   files (snd (snd (load_model L st filename w))) = files w \<and>
   (files w filename =
      Some (Pickle (Dict \<lparr>b_model = Some v1, b_scaler = Some v2, b_model_name = Some v3,
                          b_accuracy = Some v4\<rparr>)) \<longrightarrow>
    load_model L st filename w =
      (Inr (),
       st\<lparr>best_model := v1, scaler := v2, best_model_name := Some v3, best_accuracy := v4\<rparr>,
       w\<lparr>stdout := stdout w @
            [''Model loaded: '' @ v3 @ '' (Accuracy: '' @ format_f L 4 v4 @ '')'']\<rparr>)) \<and>
   (fst (load_model L st filename w) = Inr () \<longrightarrow>
    (\<exists>a b c d. files w filename =
       Some (Pickle (Dict \<lparr>b_model = Some a, b_scaler = Some b, b_model_name = Some c,
                           b_accuracy = Some d\<rparr>))))"
proof (intro conjI impI)
  show "dataset_path (fst (snd (load_model L st filename w))) = dataset_path st"
    by (simp add: load_model_def Let_def split: sum.splits)
  show "models (fst (snd (load_model L st filename w))) = models st"
    by (simp add: load_model_def Let_def split: sum.splits)
  show "fst (snd (load_model L st filename w)) =
     st\<lparr>best_model := best_model (fst (snd (load_model L st filename w))),
        scaler := scaler (fst (snd (load_model L st filename w))),
        best_model_name := best_model_name (fst (snd (load_model L st filename w))),
        best_accuracy := best_accuracy (fst (snd (load_model L st filename w)))\<rparr>"
    by (simp add: load_model_def Let_def split: sum.splits)
  show "files (snd (snd (load_model L st filename w))) = files w"
    by (simp add: load_model_def Let_def print_def split: sum.splits)
next
  assume "files w filename =
      Some (Pickle (Dict \<lparr>b_model = Some v1, b_scaler = Some v2, b_model_name = Some v3,
                          b_accuracy = Some v4\<rparr>))"
  then show "load_model L st filename w =
      (Inr (),
       st\<lparr>best_model := v1, scaler := v2, best_model_name := Some v3, best_accuracy := v4\<rparr>,
       w\<lparr>stdout := stdout w @
            [''Model loaded: '' @ v3 @ '' (Accuracy: '' @ format_f L 4 v4 @ '')'']\<rparr>)"
    by (simp add: load_model_def joblib_load_def getitem_dict_def print_def Let_def)
next
  assume ok: "fst (load_model L st filename w) = Inr ()"
  then obtain d where d: "files w filename = Some (Pickle (Dict d))"
    by (auto simp: load_model_def joblib_load_def getitem_dict_def Let_def
          split: sum.splits option.splits file_content.splits pyobj.splits)
  with ok obtain a b c e where
    "b_model d = Some a" "b_scaler d = Some b" "b_model_name d = Some c" "b_accuracy d = Some e"
    by (auto simp: load_model_def joblib_load_def getitem_dict_def Let_def
          split: sum.splits option.splits)
  then have "d = \<lparr>b_model = Some a, b_scaler = Some b, b_model_name = Some c,
                   b_accuracy = Some e\<rparr>"
    by simp
  with d show "\<exists>a b c d. files w filename =
       Some (Pickle (Dict \<lparr>b_model = Some a, b_scaler = Some b, b_model_name = Some c,
                           b_accuracy = Some d\<rparr>))"
    by blast
qed

theorem load_model_frame_witness:
  "load_model demo_library demo_tree_trainer ''sdn_best_model.pkl''
     (empty_world\<lparr>files := [''sdn_best_model.pkl'' \<mapsto>
        Pickle (Dict \<lparr>b_model = Some (Some (KNeighborsClassifier 5, demo_y_train)),
                       b_scaler = Some (Some [5, 5, 5, 5, 5, 5, 5]),
                       b_model_name = Some ''K-Nearest Neighbors'',
                       b_accuracy = Some (3 / 4)\<rparr>)]\<rparr>) =
     (Inr (),
      demo_tree_trainer\<lparr>best_model := Some (KNeighborsClassifier 5, demo_y_train),
         scaler := Some [5, 5, 5, 5, 5, 5, 5],
         best_model_name := Some ''K-Nearest Neighbors'', best_accuracy := 3 / 4\<rparr>,
      empty_world\<lparr>files := [''sdn_best_model.pkl'' \<mapsto>
        Pickle (Dict \<lparr>b_model = Some (Some (KNeighborsClassifier 5, demo_y_train)),
                       b_scaler = Some (Some [5, 5, 5, 5, 5, 5, 5]),
                       b_model_name = Some ''K-Nearest Neighbors'',
                       b_accuracy = Some (3 / 4)\<rparr>)],
        stdout := [''Model loaded: K-Nearest Neighbors (Accuracy: <float>)'']\<rparr>) \<and>
   load_model demo_library demo_tree_trainer ''sdn_best_model.pkl''
     (empty_world\<lparr>files := [''sdn_best_model.pkl'' \<mapsto>
        Pickle (Dict \<lparr>b_model = Some (Some (KNeighborsClassifier 5, demo_y_train)),
                       b_scaler = Some (Some [5, 5, 5, 5, 5, 5, 5]),
                       b_model_name = None, b_accuracy = Some (3 / 4)\<rparr>)]\<rparr>) =
     (Inl (KeyError [''model_name'']),
      demo_tree_trainer\<lparr>best_model := Some (KNeighborsClassifier 5, demo_y_train),
         scaler := Some [5, 5, 5, 5, 5, 5, 5]\<rparr>,
      empty_world\<lparr>files := [''sdn_best_model.pkl'' \<mapsto>
        Pickle (Dict \<lparr>b_model = Some (Some (KNeighborsClassifier 5, demo_y_train)),
                       b_scaler = Some (Some [5, 5, 5, 5, 5, 5, 5]),
                       b_model_name = None, b_accuracy = Some (3 / 4)\<rparr>)]\<rparr>)"
proof -
  let ?full = "\<lparr>b_model = Some (Some (KNeighborsClassifier 5, demo_y_train)),
                b_scaler = Some (Some [5, 5, 5, 5, 5, 5, 5 :: rat]),
                b_model_name = Some ''K-Nearest Neighbors'', b_accuracy = Some (3 / 4)\<rparr>"
  let ?w = "empty_world\<lparr>files := [''sdn_best_model.pkl'' \<mapsto> Pickle (Dict ?full)]\<rparr>
              :: (demo_model, rat list) world"
  have h: "files ?w ''sdn_best_model.pkl'' = Some (Pickle (Dict ?full))"
    by simp
  from load_model_frame[where L = demo_library and st = demo_tree_trainer
      and filename = "''sdn_best_model.pkl''" and w = ?w
      and ?v1.0 = "Some (KNeighborsClassifier 5, demo_y_train)"
      and ?v2.0 = "Some [5, 5, 5, 5, 5, 5, 5]" and ?v3.0 = "''K-Nearest Neighbors''"
      and ?v4.0 = "3 / 4"] h
  have full: "load_model demo_library demo_tree_trainer ''sdn_best_model.pkl'' ?w =
      (Inr (),
       demo_tree_trainer\<lparr>best_model := Some (KNeighborsClassifier 5, demo_y_train),
          scaler := Some [5, 5, 5, 5, 5, 5, 5],
          best_model_name := Some ''K-Nearest Neighbors'', best_accuracy := 3 / 4\<rparr>,
       ?w\<lparr>stdout := stdout ?w @
            [''Model loaded: '' @ ''K-Nearest Neighbors'' @ '' (Accuracy: '' @
             format_f demo_library 4 (3 / 4) @ '')'']\<rparr>)"
    by blast
  have part: "load_model demo_library demo_tree_trainer ''sdn_best_model.pkl''
     (empty_world\<lparr>files := [''sdn_best_model.pkl'' \<mapsto>
        Pickle (Dict \<lparr>b_model = Some (Some (KNeighborsClassifier 5, demo_y_train)),
                       b_scaler = Some (Some [5, 5, 5, 5, 5, 5, 5]),
                       b_model_name = None, b_accuracy = Some (3 / 4)\<rparr>)]\<rparr>) =
     (Inl (KeyError [''model_name'']),
      demo_tree_trainer\<lparr>best_model := Some (KNeighborsClassifier 5, demo_y_train),
         scaler := Some [5, 5, 5, 5, 5, 5, 5]\<rparr>,
      empty_world\<lparr>files := [''sdn_best_model.pkl'' \<mapsto>
        Pickle (Dict \<lparr>b_model = Some (Some (KNeighborsClassifier 5, demo_y_train)),
                       b_scaler = Some (Some [5, 5, 5, 5, 5, 5, 5]),
                       b_model_name = None, b_accuracy = Some (3 / 4)\<rparr>)]\<rparr>)"
    by (simp add: load_model_def joblib_load_def getitem_dict_def Let_def)
  show ?thesis
    unfolding full using part by (simp add: empty_world_def demo_library_def)
qed

end
